theory Spec2Isabelle
  imports Complex_Main
begin

section \<open>Catalog loader (src/utils/celestrakLoader.js)\<close>

text \<open>
  JavaScript strings are modelled as \<open>string\<close>; the TLE text is ASCII. A catalog entry is
  the object literal pushed by \<open>parseTLE\<close>: \<open>{id, name, line1, line2}\<close>.
\<close>

record sat =
  sat_id :: nat
  name :: string
  line1 :: string
  line2 :: string

text \<open>\<open>String.prototype.split("\n")\<close>: always at least one piece.\<close>

fun split_nl :: "string \<Rightarrow> string list" where
  "split_nl [] = [[]]"
| "split_nl (c # cs) =
     (if c = CHR 0x0A then [] # split_nl cs
      else (case split_nl cs of [] \<Rightarrow> [[c]] | l # ls \<Rightarrow> (c # l) # ls))"

text \<open>The white space and line terminators of ECMAScript that fit in one byte.\<close>

definition isWhiteSpace :: "char \<Rightarrow> bool" where
  "isWhiteSpace c =
     (c = CHR 0x09 \<or> c = CHR 0x0A \<or> c = CHR 0x0B \<or> c = CHR 0x0C \<or> c = CHR 0x0D
      \<or> c = CHR 0x20 \<or> c = CHR 0xA0)"

text \<open>\<open>String.prototype.trim\<close>.\<close>

definition trim :: "string \<Rightarrow> string" where
  "trim s = rev (dropWhile isWhiteSpace (rev (dropWhile isWhiteSpace s)))"

text \<open>
  \<open>lines[i]\<close> past the end is \<open>undefined\<close> (falsy), and so is the empty string.
\<close>

definition truthyAt :: "string list \<Rightarrow> nat \<Rightarrow> bool" where
  "truthyAt ls i = (i < length ls \<and> ls ! i \<noteq> [])"

text \<open>The loop \<open>for (let i = 0; i < lines.length; i += 3)\<close> of \<open>parseTLE\<close>.\<close>

function parseLoop :: "string list \<Rightarrow> nat \<Rightarrow> sat list \<Rightarrow> sat list" where
  "parseLoop ls i satellites =
     (if i < length ls then
        parseLoop ls (i + 3)
          (if truthyAt ls i \<and> truthyAt ls (i + 1) \<and> truthyAt ls (i + 2)
           then satellites @
                  [\<lparr>sat_id = i, name = ls ! i, line1 = ls ! (i + 1), line2 = ls ! (i + 2)\<rparr>]
           else satellites)
      else satellites)"
  by pat_completeness auto
termination
  by (relation "measure (\<lambda>(ls, i, satellites). length ls - i)") auto

definition parseTLE :: "string \<Rightarrow> sat list" where
  "parseTLE tleData =
     parseLoop (filter (\<lambda>line. line \<noteq> []) (map trim (split_nl tleData))) 0 []"

definition BACKUP_TLE :: string where
  "BACKUP_TLE =
     [CHR 0x0A] @ ''ISS (ZARYA)'' @ [CHR 0x0A]
     @ ''1 25544U 98067A   24036.56038380  .00014798  00000-0  26998-3 0  9993'' @ [CHR 0x0A]
     @ ''2 25544  51.6401 195.9620 0004567 114.7672 344.9754 15.49651543437637'' @ [CHR 0x0A]"

text \<open>
  What \<open>await fetch(DATA_URL)\<close> and \<open>await response.text()\<close> can do: the fetch rejects, or
  it resolves to a response with its \<open>ok\<close> flag whose body either reads as text or rejects.
\<close>

datatype fetch_outcome =
  FetchRejected
| Response (ok: bool) (text_body: "string option")

datatype load_error = LocalFetchFailed | NetworkError | BodyUnreadable

text \<open>The \<open>try\<close> block of \<open>fetchSatellites\<close>: \<open>Inl\<close> is a thrown error.\<close>

fun fetchTry :: "fetch_outcome \<Rightarrow> load_error + sat list" where
  "fetchTry FetchRejected = Inl NetworkError"
| "fetchTry (Response isOk body) =
     (if \<not> isOk then Inl LocalFetchFailed
      else (case body of None \<Rightarrow> Inl BodyUnreadable | Some t \<Rightarrow> Inr (parseTLE t)))"

text \<open>
  \<open>fetchSatellites\<close>: the \<open>catch\<close> handler returns the parsed fallback. \<open>Inl\<close> would be a
  rejected promise.
\<close>

definition fetchSatellites :: "fetch_outcome \<Rightarrow> load_error + sat list" where
  "fetchSatellites outcome =
     (case fetchTry outcome of
        Inl error \<Rightarrow> Inr (parseTLE BACKUP_TLE)
      | Inr cat \<Rightarrow> Inr cat)"

text \<open>The blob is unavailable or unreadable.\<close>

fun blobMissing :: "fetch_outcome \<Rightarrow> bool" where
  "blobMissing FetchRejected = True"
| "blobMissing (Response isOk body) = (\<not> isOk \<or> body = None)"

definition ISS :: sat where
  "ISS = \<lparr>sat_id = 0, name = ''ISS (ZARYA)'',
     line1 = ''1 25544U 98067A   24036.56038380  .00014798  00000-0  26998-3 0  9993'',
     line2 = ''2 25544  51.6401 195.9620 0004567 114.7672 344.9754 15.49651543437637''\<rparr>"

section \<open>The consumed propagation capability (satellite.js, Cesium geometry)\<close>

text \<open>
  The SGP4 library and the coordinate conversions are external: the model takes them as a
  record of functions. Instants are JavaScript time values (whole milliseconds since
  1970-01-01T00:00Z), numbers are reals; a call that throws is \<open>None\<close>. A position
  that is missing (\<open>!pv.position\<close>) or whose \<open>x\<close> is NaN is \<open>None\<close> as well: every
  caller drops both (the scanner through \<open>NaN < rangeMeters\<close> being false).
\<close>

record vec3 =
  vx :: real
  vy :: real
  vz :: real

record satrec =
  satnum :: string
  jdsatepoch :: real

record posvel =
  position :: "vec3 option"
  velocity :: "vec3 option"

record geodetic =
  longitude :: real
  latitude :: real
  height :: real

record extlib =
  twoline2satrec :: "string \<Rightarrow> string \<Rightarrow> satrec option"
  propagate :: "satrec \<Rightarrow> int \<Rightarrow> posvel option"
  gstime :: "int \<Rightarrow> real"
  eciToGeodetic :: "vec3 \<Rightarrow> real \<Rightarrow> geodetic"
  fromRadians :: "real \<Rightarrow> real \<Rightarrow> real \<Rightarrow> vec3"

text \<open>
  \<open>getSatrec\<close>: \<open>if (!sat?.id) return null\<close> also rejects the entry whose id is 0.
  The cache keyed by \<open>sat.id\<close> memoises a pure function of an entry whose id is unique
  in the catalog, so it is not part of the state.
\<close>

definition getSatrec :: "extlib \<Rightarrow> sat \<Rightarrow> satrec option" where
  "getSatrec lib s =
     (if sat_id s = 0 then None else twoline2satrec lib (line1 s) (line2 s))"

text \<open>
  \<open>new Date(v)\<close> for a number \<open>v\<close> (TimeClip): truncated toward zero, invalid beyond
  8.64e15 ms. \<open>None\<close> is the invalid Date.
\<close>

definition timeClip :: "real \<Rightarrow> int option" where
  "timeClip v =
     (if \<bar>v\<bar> > 8640000000000000 then None
      else Some (if 0 \<le> v then \<lfloor>v\<rfloor> else \<lceil>v\<rceil>))"

definition MAX_FUTURE_DAYS :: int where
  "MAX_FUTURE_DAYS = 30"

text \<open>\<open>new Date(d.getTime() + MAX_FUTURE_DAYS * 24 * 60 * 60 * 1000)\<close>.\<close>

definition plusHorizon :: "int \<Rightarrow> int option" where
  "plusHorizon d = timeClip (real_of_int (d + MAX_FUTURE_DAYS * 24 * 60 * 60 * 1000))"

text \<open>\<open>a > b\<close> on Dates: false when \<open>b\<close> is invalid.\<close>

fun dateAfter :: "int \<Rightarrow> int option \<Rightarrow> bool" where
  "dateAfter a None = False"
| "dateAfter a (Some b) = (a > b)"

definition tleEpochMs :: "satrec \<Rightarrow> real" where
  "tleEpochMs r = (jdsatepoch r - 2440587.5) * 86400 * 1000"

definition getTleEpochDate :: "extlib \<Rightarrow> sat \<Rightarrow> int option" where
  "getTleEpochDate lib s =
     (case getSatrec lib s of
        None \<Rightarrow> None
      | Some r \<Rightarrow> if jdsatepoch r = 0 then None else timeClip (tleEpochMs r))"

text \<open>\<open>isOutOfRange(jsDate, sat)\<close>; the validity flag is its negation.\<close>

definition isOutOfRange :: "extlib \<Rightarrow> int \<Rightarrow> sat \<Rightarrow> bool" where
  "isOutOfRange lib jsDate s =
     (case getTleEpochDate lib s of
        None \<Rightarrow> False
      | Some epoch \<Rightarrow> dateAfter jsDate (plusHorizon epoch))"

text \<open>The age and its label, as \<open>updateInfoPanel\<close> computes them.\<close>

definition tleAgeDays :: "satrec \<Rightarrow> int \<Rightarrow> real" where
  "tleAgeDays r now = (real_of_int now - tleEpochMs r) / (86400 * 1000)"

definition tleAgeLabel :: "real \<Rightarrow> string" where
  "tleAgeLabel d =
     (if d < 3 then ''FRESH''
      else if d < 14 then ''OK''
      else if d < 30 then ''OLD''
      else ''VERY OLD'')"

text \<open>
  The chain \<open>propagate\<close>, \<open>gstime\<close>, \<open>eciToGeodetic\<close>, \<open>Cartesian3.fromRadians\<close> (metres)
  that the samplers, the point callback and the scanner each repeat.
\<close>

definition cartesianAt :: "extlib \<Rightarrow> satrec \<Rightarrow> int \<Rightarrow> vec3 option" where
  "cartesianAt lib r t =
     (case propagate lib r t of
        None \<Rightarrow> None
      | Some pv \<Rightarrow>
          (case position pv of
             None \<Rightarrow> None
           | Some p \<Rightarrow>
               (let gmst = gstime lib t;
                    posGd = eciToGeodetic lib p gmst
                in Some (fromRadians lib (longitude posGd) (latitude posGd)
                           (height posGd * 1000)))))"

text \<open>\<open>Cartesian3.distance\<close>.\<close>

definition distance3 :: "vec3 \<Rightarrow> vec3 \<Rightarrow> real" where
  "distance3 a b = sqrt ((vx a - vx b)\<^sup>2 + (vy a - vy b)\<^sup>2 + (vz a - vz b)\<^sup>2)"

section \<open>Orbit path sampling\<close>

type_synonym path = "(int \<times> vec3) list"

text \<open>
  The loop of \<open>calculatePreciseMovement\<close>: \<open>for (let i = -240; i <= 240; i += 2)\<close>.
  The instants grow strictly, so \<open>addSample\<close> appends.
\<close>

function histLoop :: "extlib \<Rightarrow> satrec \<Rightarrow> int \<Rightarrow> int \<Rightarrow> path \<Rightarrow> path" where
  "histLoop lib r baseDate i property =
     (if i \<le> 240 then
        histLoop lib r baseDate (i + 2)
          (case cartesianAt lib r (baseDate + i * 60000) of
             None \<Rightarrow> property
           | Some cart \<Rightarrow> property @ [(baseDate + i * 60000, cart)])
      else property)"
  by pat_completeness auto
termination
  by (relation "measure (\<lambda>(lib, r, baseDate, i, property). nat (241 - i))") auto

text \<open>
  The callback of \<open>getDynamicFuturePath\<close>: \<open>for (let i = 0; i <= 90; i += 1)\<close>, run
  anew at every evaluation.
\<close>

function futureLoop :: "extlib \<Rightarrow> satrec \<Rightarrow> int \<Rightarrow> int \<Rightarrow> vec3 list \<Rightarrow> vec3 list" where
  "futureLoop lib r startDate i positions =
     (if i \<le> 90 then
        futureLoop lib r startDate (i + 1)
          (case cartesianAt lib r (startDate + i * 60000) of
             None \<Rightarrow> positions
           | Some cart \<Rightarrow> positions @ [cart])
      else positions)"
  by pat_completeness auto
termination
  by (relation "measure (\<lambda>(lib, r, startDate, i, positions). nat (91 - i))") auto

definition getDynamicFuturePath :: "extlib \<Rightarrow> sat \<Rightarrow> (int \<Rightarrow> vec3 list) option" where
  "getDynamicFuturePath lib s =
     (case getSatrec lib s of
        None \<Rightarrow> None
      | Some r \<Rightarrow> Some (\<lambda>cesiumTime. futureLoop lib r cesiumTime 0 []))"

section \<open>Application state (GlobeViewer in src/App.jsx)\<close>

text \<open>
  The Cesium viewer with its clock; \<open>getViewer()\<close> is \<open>null\<close> until the viewer is
  mounted. \<open>clock.currentTime\<close> is read and written through \<open>JulianDate.toDate\<close> and
  \<open>JulianDate.fromDate\<close> only, so it is kept as a JavaScript time value.
\<close>

record cesium_viewer =
  currentTime :: int
  clock_multiplier :: real
  shouldAnimate :: bool
  trackedEntity :: "string option"

record minmax =
  range_min :: real
  range_max :: real

text \<open>
  What \<open>updateInfoPanel\<close> hands to \<open>onSatelliteSelect\<close>. The position, velocity, period
  and designator fields and the two-decimal rounding of the age are display formatting of
  the same data and are left out.
\<close>

record sat_info =
  info_name :: string
  info_satId :: nat
  info_tleAgeDays :: real
  info_tleAgeLabel :: string

text \<open>An entry of \<open>found\<close> in the scanner, and an entry of \<open>intercepts\<close>.\<close>

record found_entry =
  found_name :: string
  found_id :: nat
  distanceKm :: real

record intercept =
  int_name :: string
  int_id :: nat
  int_distance :: int

text \<open>
  The React state and refs of \<open>GlobeViewer\<close> that the core reads or writes, with the
  \<open>selectedSatData\<close> of \<open>App\<close> (set through \<open>onSatelliteSelect\<close>). The text of the date
  input, the geocoding fields and the other display-only state are left out.
\<close>

record app_state =
  viewer :: "cesium_viewer option"
  satellites :: "sat list"
  selectedSat :: "sat option"
  selectedSatPath :: "path option"
  selectedSatPathRef :: "path option"
  isTracked :: bool
  searchTerm :: string
  showAdvFilters :: bool
  filterAlt :: minmax
  filterVel :: minmax
  groundTarget :: "vec3 option"
  intercepts :: "intercept list"
  scanRadius :: real
  isPaused :: bool
  multiplier :: real
  tleWarning :: string
  isTleOutOfRange :: bool
  isCalculating :: bool
  lastTickTime :: int
  lastScannerCheck :: int
  selectedSatData :: "sat_info option"

definition initialState :: app_state where
  "initialState =
     \<lparr>viewer = None, satellites = [], selectedSat = None, selectedSatPath = None,
      selectedSatPathRef = None, isTracked = False, searchTerm = [],
      showAdvFilters = False,
      filterAlt = \<lparr>range_min = 0, range_max = 40000\<rparr>,
      filterVel = \<lparr>range_min = 0, range_max = 40000\<rparr>,
      groundTarget = None, intercepts = [], scanRadius = 500, isPaused = False,
      multiplier = 10, tleWarning = [], isTleOutOfRange = False, isCalculating = False,
      lastTickTime = 0, lastScannerCheck = 0, selectedSatData = None\<rparr>"

text \<open>The timeout of the initialization effect, \<open>wallNow\<close> being \<open>new Date()\<close>.\<close>

definition initClock :: "int \<Rightarrow> app_state \<Rightarrow> app_state" where
  "initClock wallNow st =
     (case viewer st of
        None \<Rightarrow> st
      | Some v \<Rightarrow>
          st\<lparr>viewer := Some (v\<lparr>currentTime := wallNow, clock_multiplier := 10,
                                shouldAnimate := True\<rparr>)\<rparr>)"

subsection \<open>Filtering\<close>

text \<open>
  \<open>toUpperCase\<close> on ASCII letters (a lower-case letter loses bit 5, that is 32), and
  \<open>String.prototype.includes\<close>.
\<close>

definition toUpperChar :: "char \<Rightarrow> char" where
  "toUpperChar c =
     (let n = (of_char c :: nat)
      in if 97 \<le> n \<and> n \<le> 122
         then (case c of Char b0 b1 b2 b3 b4 b5 b6 b7 \<Rightarrow> Char b0 b1 b2 b3 b4 False b6 b7)
         else c)"

definition toUpperCase :: "string \<Rightarrow> string" where
  "toUpperCase s = map toUpperChar s"

fun includes_str :: "string \<Rightarrow> string \<Rightarrow> bool" where
  "includes_str [] q = (q = [])"
| "includes_str (c # cs) q = (take (length q) (c # cs) = q \<or> includes_str cs q)"

text \<open>The callback of the second \<open>filter\<close> of \<open>filteredSatellites\<close>.\<close>

definition passesAdvFilters :: "extlib \<Rightarrow> int \<Rightarrow> app_state \<Rightarrow> sat \<Rightarrow> bool" where
  "passesAdvFilters lib now st s =
     (case getSatrec lib s of
        None \<Rightarrow> False
      | Some r \<Rightarrow>
          (case propagate lib r now of
             None \<Rightarrow> False
           | Some pv \<Rightarrow>
               (case position pv of
                  None \<Rightarrow> False
                | Some p \<Rightarrow>
                    (case velocity pv of
                       None \<Rightarrow> False
                     | Some w \<Rightarrow>
                         (let vKmS = sqrt ((vx w)\<^sup>2 + (vy w)\<^sup>2 + (vz w)\<^sup>2);
                              vKmH = vKmS * 3600
                          in if vKmH < range_min (filterVel st) \<or> vKmH > range_max (filterVel st)
                             then False
                             else (let gmst = gstime lib now;
                                       posGd = eciToGeodetic lib p gmst
                                   in if height posGd < range_min (filterAlt st)
                                         \<or> height posGd > range_max (filterAlt st)
                                      then False else True))))))"

text \<open>\<open>filteredSatellites\<close>, \<open>now\<close> being the \<open>new Date()\<close> of the memo's evaluation.\<close>

definition filteredSatellites :: "extlib \<Rightarrow> int \<Rightarrow> app_state \<Rightarrow> sat list" where
  "filteredSatellites lib now st =
     (let result =
            (if trim (searchTerm st) \<noteq> []
             then (let q = toUpperCase (trim (searchTerm st))
                   in filter (\<lambda>s. includes_str (toUpperCase (name s)) q) (satellites st))
             else satellites st)
      in if \<not> showAdvFilters st then result
         else filter (passesAdvFilters lib now st) result)"

definition isSelectionInFilter :: "sat list \<Rightarrow> app_state \<Rightarrow> bool" where
  "isSelectionInFilter visible st =
     (case selectedSat st of
        None \<Rightarrow> False
      | Some sel \<Rightarrow> list_ex (\<lambda>s. sat_id s = sat_id sel) visible)"

subsection \<open>Info panel and history path\<close>

definition updateInfoPanel :: "extlib \<Rightarrow> sat \<Rightarrow> app_state \<Rightarrow> app_state" where
  "updateInfoPanel lib s st =
     (case viewer st of
        None \<Rightarrow> st
      | Some v \<Rightarrow>
          (case getSatrec lib s of
             None \<Rightarrow> st
           | Some r \<Rightarrow>
               (let now = currentTime v;
                    ageDays = tleAgeDays r now;
                    ageLabel = tleAgeLabel ageDays
                in case propagate lib r now of
                     None \<Rightarrow> st
                   | Some pv \<Rightarrow>
                       st\<lparr>selectedSatData :=
                            Some \<lparr>info_name = name s, info_satId = sat_id s,
                                  info_tleAgeDays = ageDays,
                                  info_tleAgeLabel = ageLabel\<rparr>\<rparr>)))"

definition calculatePreciseMovement :: "extlib \<Rightarrow> sat \<Rightarrow> app_state \<Rightarrow> app_state" where
  "calculatePreciseMovement lib s st =
     (case viewer st of
        None \<Rightarrow> st
      | Some v \<Rightarrow>
          (case getSatrec lib s of
             None \<Rightarrow> st
           | Some r \<Rightarrow>
               (let baseDate = currentTime v;
                    property = histLoop lib r baseDate (- 240) []
                in st\<lparr>selectedSatPathRef := Some property,
                      selectedSatPath := Some property\<rparr>)))"

subsection \<open>Selection\<close>

definition tleWarningText :: string where
  "tleWarningText =
     ''TLE out of range (+30 days). Orbit path disabled; data may be inaccurate.''"

text \<open>
  \<open>selectSatelliteById(satId)\<close>; \<open>wallNow\<close> is the \<open>new Date()\<close> used when there is no
  viewer. The setters are batched: the handler reads the state it was created with.
\<close>

definition selectSatelliteById :: "extlib \<Rightarrow> int \<Rightarrow> nat \<Rightarrow> app_state \<Rightarrow> app_state" where
  "selectSatelliteById lib wallNow satId st =
     (case find (\<lambda>s. sat_id s = satId) (satellites st) of
        None \<Rightarrow> st
      | Some s \<Rightarrow>
          (let st1 = st\<lparr>selectedSat := Some s\<rparr>;
               jsDate = (case viewer st of Some v \<Rightarrow> currentTime v | None \<Rightarrow> wallNow);
               out = isOutOfRange lib jsDate s;
               st2 = st1\<lparr>isTleOutOfRange := out\<rparr>;
               st3 = (if out
                      then st2\<lparr>selectedSatPath := None, selectedSatPathRef := None,
                               tleWarning := tleWarningText\<rparr>
                      else (let st' = calculatePreciseMovement lib s st2
                            in if tleWarning st \<noteq> [] then st'\<lparr>tleWarning := []\<rparr> else st'));
               st4 = updateInfoPanel lib s st3
           in case viewer st4 of
                None \<Rightarrow> st4
              | Some v \<Rightarrow>
                  if trackedEntity v \<noteq> None
                  then st4\<lparr>viewer := Some (v\<lparr>trackedEntity := None\<rparr>)\<rparr>
                  else st4))"

text \<open>
  The body shared by the auto-deselect effect and the background click: everything the
  selection owns is reset.
\<close>

definition clearSelection :: "app_state \<Rightarrow> app_state" where
  "clearSelection st =
     (let st1 = st\<lparr>selectedSat := None, selectedSatPath := None, selectedSatPathRef := None,
                   isTracked := False, selectedSatData := None\<rparr>
      in case viewer st1 of
           None \<Rightarrow> st1
         | Some v \<Rightarrow> st1\<lparr>viewer := Some (v\<lparr>trackedEntity := None\<rparr>)\<rparr>)"

text \<open>
  The effect "auto-deselect if selection disappears from current filtered list", run with
  the filtered list \<open>visible\<close>.
\<close>

definition autoDeselect :: "sat list \<Rightarrow> app_state \<Rightarrow> app_state" where
  "autoDeselect visible st =
     (case selectedSat st of
        None \<Rightarrow> st
      | Some sel \<Rightarrow>
          (let stillVisible = list_ex (\<lambda>s. sat_id s = sat_id sel) visible
           in if stillVisible then st else clearSelection st))"

text \<open>What the JSX renders for the selection: the path entity group, or the plain point.\<close>

definition showsOrbitPath :: "sat list \<Rightarrow> app_state \<Rightarrow> bool" where
  "showsOrbitPath visible st =
     (selectedSat st \<noteq> None \<and> \<not> isTleOutOfRange st
      \<and> (selectedSatPath st \<noteq> None \<or> selectedSatPathRef st \<noteq> None)
      \<and> isSelectionInFilter visible st)"

definition showsStaticMarker :: "sat list \<Rightarrow> app_state \<Rightarrow> bool" where
  "showsStaticMarker visible st =
     (selectedSat st \<noteq> None \<and> isTleOutOfRange st \<and> isSelectionInFilter visible st)"

text \<open>
  The dashed future path is an element of the path entity group only: its positions are
  \<open>getDynamicFuturePath(selectedSat)\<close>, evaluated at the clock's time.
\<close>

definition renderedFuturePath :: "extlib \<Rightarrow> sat list \<Rightarrow> app_state \<Rightarrow> (int \<Rightarrow> vec3 list) option" where
  "renderedFuturePath lib visible st =
     (if showsOrbitPath visible st
      then (case selectedSat st of None \<Rightarrow> None | Some s \<Rightarrow> getDynamicFuturePath lib s)
      else None)"

subsection \<open>Tick: freshness and scanner\<close>

text \<open>The part of \<open>onTick\<close> run once per second of wall time.\<close>

definition tickUi :: "extlib \<Rightarrow> cesium_viewer \<Rightarrow> app_state \<Rightarrow> app_state" where
  "tickUi lib clock st =
     (let jsDate = currentTime clock;
          out = (case selectedSat st of Some s \<Rightarrow> isOutOfRange lib jsDate s | None \<Rightarrow> False);
          st1 = (if out \<noteq> isTleOutOfRange st
                 then (let sa = st\<lparr>isTleOutOfRange := out\<rparr>
                       in if out
                          then sa\<lparr>selectedSatPath := None, selectedSatPathRef := None\<rparr>
                          else (case selectedSat st of
                                  Some s \<Rightarrow> calculatePreciseMovement lib s sa
                                | None \<Rightarrow> sa))
                 else st);
          st2 = (if out then st1\<lparr>tleWarning := tleWarningText\<rparr>
                 else if tleWarning st \<noteq> [] then st1\<lparr>tleWarning := []\<rparr> else st1)
      in case selectedSat st of
           Some s \<Rightarrow> updateInfoPanel lib s st2
         | None \<Rightarrow> st2)"

text \<open>The \<open>for (const sat of subsetToCheck)\<close> loop of the scanner.\<close>

fun scanLoop :: "extlib \<Rightarrow> int \<Rightarrow> vec3 \<Rightarrow> real \<Rightarrow> sat list \<Rightarrow> found_entry list \<Rightarrow> found_entry list" where
  "scanLoop lib currentJsDate target rangeMeters [] found = found"
| "scanLoop lib currentJsDate target rangeMeters (s # rest) found =
     scanLoop lib currentJsDate target rangeMeters rest
       (case getSatrec lib s of
          None \<Rightarrow> found
        | Some r \<Rightarrow>
            (case cartesianAt lib r currentJsDate of
               None \<Rightarrow> found
             | Some satCart \<Rightarrow>
                 (let distance = distance3 satCart target
                  in if distance < rangeMeters
                     then found @ [\<lparr>found_name = name s, found_id = sat_id s,
                                    distanceKm = distance / 1000\<rparr>]
                     else found)))"

definition subsetToCheck :: "sat list \<Rightarrow> app_state \<Rightarrow> sat list" where
  "subsetToCheck visible st =
     (let sourceList = (if length visible \<noteq> 0 then visible else satellites st)
      in take 1000 sourceList)"

text \<open>
  \<open>found.sort((a, b) => a.distanceKm - b.distanceKm)\<close>: \<open>Array.prototype.sort\<close> is a
  stable sort, and so is \<open>sort_key\<close>.
\<close>

definition scanFound :: "extlib \<Rightarrow> sat list \<Rightarrow> int \<Rightarrow> vec3 \<Rightarrow> app_state \<Rightarrow> found_entry list" where
  "scanFound lib visible currentJsDate target st =
     (let rangeMeters = scanRadius st * 1000;
          found = scanLoop lib currentJsDate target rangeMeters (subsetToCheck visible st) []
      in sort_key distanceKm found)"

text \<open>\<open>toFixed(0)\<close>: the nearest integer, halves away from zero.\<close>

definition toFixed0 :: "real \<Rightarrow> int" where
  "toFixed0 x = (if 0 \<le> x then \<lfloor>x + 1 / 2\<rfloor> else - \<lfloor>- x + 1 / 2\<rfloor>)"

definition toIntercept :: "found_entry \<Rightarrow> intercept" where
  "toIntercept x =
     \<lparr>int_name = found_name x, int_id = found_id x, int_distance = toFixed0 (distanceKm x)\<rparr>"

text \<open>
  \<open>onTick(clock)\<close>, \<open>nowMs\<close> being \<open>Date.now()\<close> and \<open>visible\<close> the filtered list. The
  listener exists only once the viewer does.
\<close>

definition onTick :: "extlib \<Rightarrow> sat list \<Rightarrow> int \<Rightarrow> app_state \<Rightarrow> app_state" where
  "onTick lib visible nowMs st =
     (case viewer st of
        None \<Rightarrow> st
      | Some clock \<Rightarrow>
          (let st1 = (if nowMs - lastTickTime st > 1000
                      then tickUi lib clock (st\<lparr>lastTickTime := nowMs\<rparr>)
                      else st)
           in case groundTarget st of
                None \<Rightarrow> st1
              | Some target \<Rightarrow>
                  if nowMs - lastScannerCheck st > 2000
                  then st1\<lparr>lastScannerCheck := nowMs,
                           intercepts :=
                             map toIntercept
                               (scanFound lib visible (currentTime clock) target st)\<rparr>
                  else st1))"

subsection \<open>Clock controls\<close>

definition togglePlay :: "app_state \<Rightarrow> app_state" where
  "togglePlay st =
     (case viewer st of
        None \<Rightarrow> st
      | Some c \<Rightarrow>
          st\<lparr>viewer := Some (c\<lparr>shouldAnimate := \<not> shouldAnimate c\<rparr>),
             isPaused := \<not> (\<not> shouldAnimate c)\<rparr>)"

text \<open>\<open>setSpeed(val)\<close>, given \<open>parseFloat(val)\<close>: \<open>None\<close> is NaN.\<close>

definition setSpeed :: "real option \<Rightarrow> app_state \<Rightarrow> app_state" where
  "setSpeed parsed st =
     (case parsed of
        None \<Rightarrow> st
      | Some s \<Rightarrow>
          (let st1 = st\<lparr>multiplier := s\<rparr>
           in case viewer st of
                None \<Rightarrow> st1
              | Some c \<Rightarrow>
                  st1\<lparr>viewer := Some (c\<lparr>clock_multiplier := s, shouldAnimate := True\<rparr>),
                      isPaused := False\<rparr>))"

text \<open>
  \<open>handleDateChange(e)\<close>: \<open>picked\<close> is \<open>new Date(e.target.value)\<close>, \<open>None\<close> for the empty
  value; \<open>wallNow\<close> is \<open>Date.now()\<close>. \<open>clampDate\<close> is the computation of \<open>finalDate\<close>. The
  timers of the overlay, which reset \<open>isCalculating\<close> later, are not modelled.
\<close>

definition clampDate :: "extlib \<Rightarrow> int \<Rightarrow> sat option \<Rightarrow> int \<Rightarrow> int" where
  "clampDate lib wallNow sel newJsDate =
     (let finalDate =
            (case sel of
               None \<Rightarrow> newJsDate
             | Some s \<Rightarrow>
                 (case getTleEpochDate lib s of
                    None \<Rightarrow> newJsDate
                  | Some epoch \<Rightarrow>
                      (case plusHorizon epoch of
                         None \<Rightarrow> newJsDate
                       | Some maxLimit \<Rightarrow>
                           if newJsDate > maxLimit then maxLimit else newJsDate)))
      in case plusHorizon wallNow of
           None \<Rightarrow> finalDate
         | Some maxLimit \<Rightarrow> if finalDate > maxLimit then maxLimit else finalDate)"

definition handleDateChange :: "extlib \<Rightarrow> int \<Rightarrow> int option \<Rightarrow> app_state \<Rightarrow> app_state" where
  "handleDateChange lib wallNow picked st =
     (case picked of
        None \<Rightarrow> st
      | Some newJsDate \<Rightarrow>
          (case viewer st of
             None \<Rightarrow> st
           | Some v \<Rightarrow>
               (let finalDate = clampDate lib wallNow (selectedSat st) newJsDate;
                    st1 = st\<lparr>viewer := Some (v\<lparr>currentTime := finalDate,
                                                 shouldAnimate := True\<rparr>),
                             isCalculating := True\<rparr>;
                    out = (case selectedSat st of
                             Some s \<Rightarrow> isOutOfRange lib finalDate s
                           | None \<Rightarrow> False);
                    st2 = st1\<lparr>isTleOutOfRange := out\<rparr>
                in if out
                   then st2\<lparr>selectedSatPath := None, selectedSatPathRef := None,
                            tleWarning := tleWarningText\<rparr>
                   else (let st3 = (case selectedSat st of
                                      Some s \<Rightarrow> calculatePreciseMovement lib s st2
                                    | None \<Rightarrow> st2)
                         in if tleWarning st \<noteq> [] then st3\<lparr>tleWarning := []\<rparr> else st3))))"

section \<open>Vocabulary of the properties\<close>

text \<open>
  What one iteration of the scanner loop contributes: the entry it pushes, if any.
\<close>

definition scanEntry :: "extlib \<Rightarrow> int \<Rightarrow> vec3 \<Rightarrow> real \<Rightarrow> sat \<Rightarrow> found_entry option" where
  "scanEntry lib currentJsDate target rangeMeters s =
     (case getSatrec lib s of
        None \<Rightarrow> None
      | Some r \<Rightarrow>
          (case cartesianAt lib r currentJsDate of
             None \<Rightarrow> None
           | Some satCart \<Rightarrow>
               if distance3 satCart target < rangeMeters
               then Some \<lparr>found_name = name s, found_id = sat_id s,
                          distanceKm = distance3 satCart target / 1000\<rparr>
               else None))"

text \<open>The instants of the history window: \<open>baseDate - 4 h + j * 2 min\<close>, \<open>j = 0..240\<close>.\<close>

definition historyGrid :: "int \<Rightarrow> int list" where
  "historyGrid baseDate = map (\<lambda>j. baseDate - 14400000 + 120000 * int j) [0..<241]"

text \<open>The instants of the future horizon: \<open>startDate + j * 1 min\<close>, \<open>j = 0..90\<close>.\<close>

definition futureGrid :: "int \<Rightarrow> int list" where
  "futureGrid startDate = map (\<lambda>j. startDate + 60000 * int j) [0..<91]"

text \<open>
  While the out-of-range flag is set, no history path is held, in the state or in the ref.
\<close>

definition pathSuppressed :: "app_state \<Rightarrow> bool" where
  "pathSuppressed st =
     (if isTleOutOfRange st then selectedSatPath st = None \<and> selectedSatPathRef st = None
      else True)"

section \<open>Concrete inputs\<close>

text \<open>
  A stand-in for the external library, to run the model on concrete inputs: every element
  pair yields a record with the given epoch whose catalogue number is columns 3 to 7 of
  line 1, and an object is where the table \<open>posOf\<close> puts it (propagation throws where the
  table has no entry).
\<close>

definition stubLib :: "real \<Rightarrow> (string \<Rightarrow> vec3 option) \<Rightarrow> extlib" where
  "stubLib jd posOf =
     \<lparr>twoline2satrec = (\<lambda>l1 l2. Some \<lparr>satnum = take 5 (drop 2 l1), jdsatepoch = jd\<rparr>),
      propagate = (\<lambda>r t. case posOf (satnum r) of
                             None \<Rightarrow> None
                           | Some p \<Rightarrow> Some \<lparr>position = Some p,
                                              velocity = Some \<lparr>vx = 0, vy = 0, vz = 0\<rparr>\<rparr>),
      gstime = (\<lambda>t. 0),
      eciToGeodetic = (\<lambda>p g. \<lparr>longitude = vx p, latitude = vy p, height = vz p\<rparr>),
      fromRadians = (\<lambda>lon lat h. \<lparr>vx = lon, vy = lat, vz = h\<rparr>)\<rparr>"

definition demoPos :: "string \<Rightarrow> vec3 option" where
  "demoPos n =
     (if n = ''00001'' then Some \<lparr>vx = 6478137, vy = 0, vz = 0\<rparr>
      else if n = ''00002'' then Some \<lparr>vx = 7178137, vy = 0, vz = 0\<rparr>
      else if n = ''00004'' then Some \<lparr>vx = 6278137, vy = 0, vz = 0\<rparr>
      else if n = ''00005'' then Some \<lparr>vx = 6428137, vy = 0, vz = 0\<rparr>
      else if n = ''25544'' then Some \<lparr>vx = 6798137, vy = 0, vz = 0\<rparr>
      else None)"

text \<open>
  The epoch of the built-in ISS elements, 2024-02-05T13:26:57.160Z, as a Julian date:
  1707139617160.32 ms.
\<close>

definition demoLib :: extlib where
  "demoLib = stubLib 2460346.0603838 demoPos"

definition demoRec :: satrec where
  "demoRec = \<lparr>satnum = ''25544'', jdsatepoch = 2460346.0603838\<rparr>"

text \<open>A catalog as \<open>parseTLE\<close> numbers it: ids 0, 3, 6, 9, 12, 15.\<close>

definition satNear :: sat where
  "satNear = \<lparr>sat_id = 3, name = ''NEAR'', line1 = ''1 00001U'', line2 = ''2 00001''\<rparr>"

definition satLost :: sat where
  "satLost = \<lparr>sat_id = 6, name = ''LOST'', line1 = ''1 00003U'', line2 = ''2 00003''\<rparr>"

definition satFar :: sat where
  "satFar = \<lparr>sat_id = 9, name = ''FAR'', line1 = ''1 00002U'', line2 = ''2 00002''\<rparr>"

definition satTwin :: sat where
  "satTwin = \<lparr>sat_id = 12, name = ''TWIN'', line1 = ''1 00004U'', line2 = ''2 00004''\<rparr>"

definition satClose :: sat where
  "satClose = \<lparr>sat_id = 15, name = ''CLOSE'', line1 = ''1 00005U'', line2 = ''2 00005''\<rparr>"

definition demoCatalog :: "sat list" where
  "demoCatalog = [ISS, satNear, satLost, satFar, satTwin, satClose]"

definition demoViewer :: "int \<Rightarrow> cesium_viewer" where
  "demoViewer t =
     \<lparr>currentTime = t, clock_multiplier = 10, shouldAnimate = True, trackedEntity = None\<rparr>"

definition demoState :: "int \<Rightarrow> app_state" where
  "demoState t = initialState\<lparr>viewer := Some (demoViewer t), satellites := demoCatalog\<rparr>"

text \<open>The ground point at latitude 0, longitude 0.\<close>

definition demoTarget :: vec3 where
  "demoTarget = \<lparr>vx = 6378137, vy = 0, vz = 0\<rparr>"

text \<open>A state that tracks \<open>satFar\<close>, with a cached path, the follow flag and a snapshot.\<close>

definition trackingState :: app_state where
  "trackingState =
     (demoState 1707226017160)
       \<lparr>selectedSat := Some satFar,
        selectedSatPath := Some [(1707226017160, \<lparr>vx = 7178137, vy = 0, vz = 0\<rparr>)],
        selectedSatPathRef := Some [(1707226017160, \<lparr>vx = 7178137, vy = 0, vz = 0\<rparr>)],
        isTracked := True,
        selectedSatData := Some \<lparr>info_name = ''FAR'', info_satId = 9, info_tleAgeDays = 1,
                                 info_tleAgeLabel = ''FRESH''\<rparr>\<rparr>"

text \<open>The demo state with the ground target set; the scan radius is the initial 500 km.\<close>

definition scanState :: app_state where
  "scanState = (demoState 1707226017160)\<lparr>groundTarget := Some demoTarget\<rparr>"

section \<open>Loader: properties\<close>

declare parseLoop.simps [simp del] histLoop.simps [simp del] futureLoop.simps [simp del]

lemma parseTLE_BACKUP: "parseTLE BACKUP_TLE = [ISS]"
  by (simp add: parseTLE_def BACKUP_TLE_def ISS_def trim_def isWhiteSpace_def truthyAt_def
      parseLoop.simps)

text \<open>
  Claim C9. The catalog load never fails: for every outcome of the fetch,
  \<open>fetchSatellites\<close> resolves to a list of parsed records; when the blob is unavailable
  (the fetch rejects, the response is not ok) or unreadable (the body cannot be read), the
  list is the built-in fallback, which holds exactly one record, the ISS; a readable blob
  is parsed as it is, whatever it holds.
\<close>

theorem fetchSatellites_never_fails:
  "(\<exists>cat. fetchSatellites outcome = Inr cat)
   \<and> (blobMissing outcome \<longrightarrow> fetchSatellites outcome = Inr [ISS])
   \<and> (\<forall>t. outcome = Response True (Some t) \<longrightarrow> fetchSatellites outcome = Inr (parseTLE t))"
  by (cases outcome) (auto simp: fetchSatellites_def parseTLE_BACKUP split: option.splits)

lemma parseTLE_empty: "parseTLE [] = []"
  by (simp add: parseTLE_def trim_def parseLoop.simps)

theorem fetchSatellites_never_fails_witness:
  "blobMissing FetchRejected \<and> fetchSatellites FetchRejected = Inr [ISS]
   \<and> blobMissing (Response False (Some ''x''))
   \<and> fetchSatellites (Response False (Some ''x'')) = Inr [ISS]
   \<and> blobMissing (Response True None) \<and> fetchSatellites (Response True None) = Inr [ISS]
   \<and> fetchSatellites (Response True (Some [])) = Inr []
   \<and> length [ISS] = 1 \<and> name ISS = ''ISS (ZARYA)''"
  using fetchSatellites_never_fails [of FetchRejected]
    fetchSatellites_never_fails [of "Response False (Some ''x'')"]
    fetchSatellites_never_fails [of "Response True None"]
    fetchSatellites_never_fails [of "Response True (Some [])"]
  by (simp add: ISS_def parseTLE_empty)

section \<open>Orbit path sampling: properties\<close>

lemma hist_grid_step:
  assumes "i \<le> 240"
  shows "map (\<lambda>j. i + 2 * int j) [0..<nat ((242 - i) div 2)]
         = i # map (\<lambda>j. (i + 2) + 2 * int j) [0..<nat ((242 - (i + 2)) div 2)]"
proof -
  have n: "nat ((242 - i) div 2) = Suc (nat ((242 - (i + 2)) div 2))"
    using assms by linarith
  show ?thesis
    unfolding n by (simp add: upt_conv_Cons map_Suc_upt [symmetric] del: upt_Suc)
qed

lemma histLoop_closed:
  "histLoop lib r b i acc =
     acc @ List.map_filter (\<lambda>k. map_option (Pair (b + k * 60000)) (cartesianAt lib r (b + k * 60000)))
             (map (\<lambda>j. i + 2 * int j) [0..<nat ((242 - i) div 2)])"
proof (induction lib r b i acc rule: histLoop.induct)
  case (1 lib r b i acc)
  show ?case
  proof (cases "i \<le> 240")
    case True
    show ?thesis
      apply (subst histLoop.simps)
      apply (simp only: True if_True "1.IH" [OF True] hist_grid_step [OF True])
      apply (simp add: List.map_filter_simps split: option.splits)
      done
  next
    case False
    then have "nat ((242 - i) div 2) = 0" by linarith
    with False show ?thesis
      by (subst histLoop.simps) (simp add: List.map_filter_simps)
  qed
qed

lemma future_grid_step:
  assumes "i \<le> 90"
  shows "map (\<lambda>j. i + int j) [0..<nat (91 - i)]
         = i # map (\<lambda>j. (i + 1) + int j) [0..<nat (91 - (i + 1))]"
proof -
  have n: "nat (91 - i) = Suc (nat (91 - (i + 1)))"
    using assms by linarith
  show ?thesis
    unfolding n by (simp add: upt_conv_Cons map_Suc_upt [symmetric] del: upt_Suc)
qed

lemma futureLoop_closed:
  "futureLoop lib r b i acc =
     acc @ List.map_filter (\<lambda>k. cartesianAt lib r (b + k * 60000))
             (map (\<lambda>j. i + int j) [0..<nat (91 - i)])"
proof (induction lib r b i acc rule: futureLoop.induct)
  case (1 lib r b i acc)
  show ?case
  proof (cases "i \<le> 90")
    case True
    show ?thesis
      apply (subst futureLoop.simps)
      apply (simp only: True if_True "1.IH" [OF True] future_grid_step [OF True])
      apply (simp add: List.map_filter_simps split: option.splits)
      done
  next
    case False
    then have "nat (91 - i) = 0" by linarith
    with False show ?thesis
      by (subst futureLoop.simps) (simp add: List.map_filter_simps)
  qed
qed

lemma map_filter_map:
  "List.map_filter f (map g xs) = List.map_filter (\<lambda>x. f (g x)) xs"
  by (induction xs) (simp_all split: option.splits)

lemma histLoop_grid:
  "histLoop lib r b (- 240) [] =
     List.map_filter (\<lambda>t. map_option (Pair t) (cartesianAt lib r t)) (historyGrid b)"
  by (simp add: histLoop_closed historyGrid_def map_filter_map algebra_simps)

lemma futureLoop_grid:
  "futureLoop lib r b 0 [] = List.map_filter (cartesianAt lib r) (futureGrid b)"
  by (simp add: futureLoop_closed futureGrid_def map_filter_map algebra_simps)

lemma historyGrid_sorted: "sorted_wrt (<) (historyGrid b)"
  by (simp add: historyGrid_def sorted_wrt_map)

lemma fst_map_filter_Pair:
  "map fst (List.map_filter (\<lambda>t. map_option (Pair t) (g t)) xs) = filter (\<lambda>t. g t \<noteq> None) xs"
  by (induction xs) (auto split: option.splits)

lemma length_map_filter_le: "length (List.map_filter f xs) \<le> length xs"
  by (induction xs) (auto split: option.splits)

lemma length_map_filter_all:
  "(\<And>x. f x \<noteq> None) \<Longrightarrow> length (List.map_filter f xs) = length xs"
  by (induction xs) (auto split: option.splits)

text \<open>
  When no step fails, the future sampler returns one position per loop step
  \<open>i = 0, \<dots>, 90\<close>: 91 positions, both ends of the 90 minutes included.
\<close>

lemma futureLoop_full:
  assumes "\<And>t. cartesianAt lib r t \<noteq> None"
  shows "length (futureLoop lib r startDate 0 []) = 91"
  using length_map_filter_all [of "cartesianAt lib r" "futureGrid startDate", OF assms]
  by (simp add: futureLoop_grid futureGrid_def)

text \<open>
  Claim C6. For every propagation record and centre instant, the history sampler (the loop
  that \<open>calculatePreciseMovement\<close> runs around the clock's instant once the viewer and the
  record exist, its result becoming the cached path) visits
  the fixed window of 4 hours on each side of the centre at a 2-minute step (the 241
  instants of \<open>historyGrid\<close>) and keeps exactly the steps whose propagation succeeds, each
  with its position, in the order of the window: a failing step is skipped and the later
  ones are still sampled. The instants of the samples are therefore non-decreasing (and
  distinct). For every start instant the future sampler keeps the successful steps of its
  90-minute horizon at a 1-minute step and never returns more positions than its loop has
  steps, which is 91 (\<open>i = 0, \<dots>, 90\<close>); what \<open>getDynamicFuturePath\<close> returns runs that
  loop anew from the instant of each request and depends on nothing else.
\<close>

theorem samplers_window:
  "histLoop lib r baseDate (- 240) []
     = List.map_filter (\<lambda>t. map_option (Pair t) (cartesianAt lib r t)) (historyGrid baseDate)
   \<and> map fst (histLoop lib r baseDate (- 240) [])
       = filter (\<lambda>t. cartesianAt lib r t \<noteq> None) (historyGrid baseDate)
   \<and> sorted (map fst (histLoop lib r baseDate (- 240) []))
   \<and> distinct (map fst (histLoop lib r baseDate (- 240) []))
   \<and> length (histLoop lib r baseDate (- 240) []) \<le> 241
   \<and> futureLoop lib r startDate 0 [] = List.map_filter (cartesianAt lib r) (futureGrid startDate)
   \<and> length (futureLoop lib r startDate 0 []) \<le> 91
   \<and> getDynamicFuturePath lib s
       = map_option (\<lambda>rec cesiumTime. futureLoop lib rec cesiumTime 0 []) (getSatrec lib s)
   \<and> (\<forall>v rec. viewer st = Some v \<and> getSatrec lib s = Some rec \<longrightarrow>
         selectedSatPath (calculatePreciseMovement lib s st)
           = Some (histLoop lib rec (currentTime v) (- 240) [])
         \<and> selectedSatPathRef (calculatePreciseMovement lib s st)
           = Some (histLoop lib rec (currentTime v) (- 240) []))"
proof -
  let ?h = "histLoop lib r baseDate (- 240) []"
  have inst: "map fst ?h = filter (\<lambda>t. cartesianAt lib r t \<noteq> None) (historyGrid baseDate)"
    by (simp only: histLoop_grid fst_map_filter_Pair)
  have strict: "sorted_wrt (<) (map fst ?h)"
    unfolding inst by (rule sorted_wrt_filter [OF historyGrid_sorted])
  have srt: "sorted (map fst ?h)" and dst: "distinct (map fst ?h)"
    using strict strict_sorted_iff by blast+
  have "length ?h \<le> length (historyGrid baseDate)"
    by (simp only: histLoop_grid length_map_filter_le)
  then have len: "length ?h \<le> 241" by (simp add: historyGrid_def)
  have "length (futureLoop lib r startDate 0 []) \<le> length (futureGrid startDate)"
    by (simp only: futureLoop_grid length_map_filter_le)
  then have flen: "length (futureLoop lib r startDate 0 []) \<le> 91" by (simp add: futureGrid_def)
  have dyn: "getDynamicFuturePath lib s
       = map_option (\<lambda>rec cesiumTime. futureLoop lib rec cesiumTime 0 []) (getSatrec lib s)"
    by (simp add: getDynamicFuturePath_def split: option.splits)
  have cpm: "\<forall>v rec. viewer st = Some v \<and> getSatrec lib s = Some rec \<longrightarrow>
         selectedSatPath (calculatePreciseMovement lib s st)
           = Some (histLoop lib rec (currentTime v) (- 240) [])
         \<and> selectedSatPathRef (calculatePreciseMovement lib s st)
           = Some (histLoop lib rec (currentTime v) (- 240) [])"
    by (simp add: calculatePreciseMovement_def Let_def)
  show ?thesis
    using inst srt dst len flen histLoop_grid futureLoop_grid dyn cpm by blast
qed

theorem samplers_window_witness:
  "viewer (demoState 1707226017160) = Some (demoViewer 1707226017160)
   \<and> getSatrec demoLib satNear = Some \<lparr>satnum = ''00001'', jdsatepoch = 2460346.0603838\<rparr>
   \<and> selectedSatPath (calculatePreciseMovement demoLib satNear (demoState 1707226017160))
       = Some (histLoop demoLib \<lparr>satnum = ''00001'', jdsatepoch = 2460346.0603838\<rparr>
                 1707226017160 (- 240) [])
   \<and> sorted (map fst (histLoop demoLib \<lparr>satnum = ''00001'', jdsatepoch = 2460346.0603838\<rparr>
                 1707226017160 (- 240) []))
   \<and> length (histLoop demoLib \<lparr>satnum = ''00001'', jdsatepoch = 2460346.0603838\<rparr>
                 1707226017160 (- 240) []) \<le> 241
   \<and> length (futureLoop demoLib \<lparr>satnum = ''00001'', jdsatepoch = 2460346.0603838\<rparr>
                 1707226017160 0 []) \<le> 91"
proof -
  let ?R = "\<lparr>satnum = ''00001'', jdsatepoch = 2460346.0603838\<rparr>"
  have v: "viewer (demoState 1707226017160) = Some (demoViewer 1707226017160)"
    by (simp add: demoState_def)
  have r: "getSatrec demoLib satNear = Some ?R"
    by (simp add: getSatrec_def demoLib_def stubLib_def satNear_def)
  note T = samplers_window [where lib = demoLib and r = ?R and baseDate = 1707226017160
      and startDate = 1707226017160 and s = satNear and st = "demoState 1707226017160"]
  have p: "selectedSatPath (calculatePreciseMovement demoLib satNear (demoState 1707226017160))
       = Some (histLoop demoLib ?R (currentTime (demoViewer 1707226017160)) (- 240) [])"
    using T v r by blast
  have q: "sorted (map fst (histLoop demoLib ?R 1707226017160 (- 240) []))
     \<and> length (histLoop demoLib ?R 1707226017160 (- 240) []) \<le> 241
     \<and> length (futureLoop demoLib ?R 1707226017160 0 []) \<le> 91"
    using T by blast
  show ?thesis
    using v r p q by (simp add: demoViewer_def)
qed

section \<open>Scanner and selection: properties\<close>

lemma scanLoop_closed:
  "scanLoop lib t target rng xs acc = acc @ List.map_filter (scanEntry lib t target rng) xs"
  by (induction xs arbitrary: acc) (auto simp: scanEntry_def Let_def split: option.splits)

lemma list_ex_sat_id:
  "list_ex (\<lambda>s. sat_id s = sid) (visible :: sat list) = (sid \<in> set (map sat_id visible))"
  by (induction visible) auto

lemma demo_filter_none:
  "filteredSatellites demoLib 0 ((demoState 0)\<lparr>searchTerm := ''zzz''\<rparr>) = []"
  by (simp add: filteredSatellites_def demoState_def initialState_def demoCatalog_def ISS_def
      satNear_def satLost_def satFar_def satTwin_def satClose_def trim_def isWhiteSpace_def toUpperCase_def
      toUpperChar_def)

lemma demo_filter_near:
  "filteredSatellites demoLib 0 ((demoState 0)\<lparr>searchTerm := '' near ''\<rparr>) = [satNear]"
  by (simp add: filteredSatellites_def demoState_def initialState_def demoCatalog_def ISS_def
      satNear_def satLost_def satFar_def satTwin_def satClose_def trim_def isWhiteSpace_def toUpperCase_def
      toUpperChar_def)

text \<open>
  Claim C10. The scanner examines the filtered list only when that list is not empty; when
  the filter matches nothing it examines the whole catalog; in both cases only the first
  1000 entries, and the result of a scan cycle is computed from those entries alone.
\<close>

theorem scanner_subset:
  "subsetToCheck visible st = take 1000 (if visible = [] then satellites st else visible)
   \<and> length (subsetToCheck visible st) \<le> 1000
   \<and> scanFound lib visible t target st
       = sort_key distanceKm
           (List.map_filter (scanEntry lib t target (scanRadius st * 1000))
              (subsetToCheck visible st))"
  by (simp add: subsetToCheck_def scanFound_def scanLoop_closed)

theorem scanner_subset_witness:
  "subsetToCheck (filteredSatellites demoLib 0 ((demoState 0)\<lparr>searchTerm := ''zzz''\<rparr>))
       ((demoState 0)\<lparr>searchTerm := ''zzz''\<rparr>) = demoCatalog
   \<and> subsetToCheck (filteredSatellites demoLib 0 ((demoState 0)\<lparr>searchTerm := '' near ''\<rparr>))
       ((demoState 0)\<lparr>searchTerm := '' near ''\<rparr>) = [satNear]"
  using scanner_subset [of "[]" "(demoState 0)\<lparr>searchTerm := ''zzz''\<rparr>" demoLib 0 demoTarget]
    scanner_subset [of "[satNear]" "(demoState 0)\<lparr>searchTerm := '' near ''\<rparr>" demoLib 0 demoTarget]
  unfolding demo_filter_none demo_filter_near
  by (simp add: demoState_def demoCatalog_def)

text \<open>
  Claim C7. In every state that tracks an object, for every visible list that does not
  hold its id, the auto-deselect effect is the full clear: the selection, the cached path
  (state and ref), the follow flag and the exposed snapshot are reset, and the viewer, if
  any, follows nothing. The effect is a function of the state and the list, and it has no
  error outcome.
\<close>

theorem autoDeselect_clears:
  assumes "selectedSat st = Some sel"
    and "sat_id sel \<notin> set (map sat_id visible)"
  shows "autoDeselect visible st = clearSelection st
    \<and> selectedSat (autoDeselect visible st) = None
    \<and> selectedSatPath (autoDeselect visible st) = None
    \<and> selectedSatPathRef (autoDeselect visible st) = None
    \<and> isTracked (autoDeselect visible st) = False
    \<and> selectedSatData (autoDeselect visible st) = None
    \<and> map_option trackedEntity (viewer (autoDeselect visible st))
        = map_option (\<lambda>v. None) (viewer st)"
proof -
  have "\<not> list_ex (\<lambda>s. sat_id s = sat_id sel) visible"
    using assms(2) by (simp only: list_ex_sat_id not_False_eq_True)
  then have eq: "autoDeselect visible st = clearSelection st"
    using assms(1) by (simp add: autoDeselect_def)
  show ?thesis
    unfolding eq by (simp add: clearSelection_def Let_def split: option.splits)
qed

theorem autoDeselect_clears_witness:
  "selectedSat trackingState = Some satFar
   \<and> sat_id satFar \<notin> set (map sat_id [satNear])
   \<and> selectedSat (autoDeselect [satNear] trackingState) = None
   \<and> selectedSatPath (autoDeselect [satNear] trackingState) = None
   \<and> isTracked (autoDeselect [satNear] trackingState) = False
   \<and> selectedSatData (autoDeselect [satNear] trackingState) = None"
proof -
  have a: "selectedSat trackingState = Some satFar"
    by (simp add: trackingState_def)
  have b: "sat_id satFar \<notin> set (map sat_id [satNear])"
    by (simp add: satFar_def satNear_def)
  show ?thesis
    using a b autoDeselect_clears [OF a b] by blast
qed

section \<open>Clock: properties\<close>

text \<open>
  Claim C8, as the code has it. The multiplier starts at 10, in the state and on the clock
  once the viewer is mounted. \<open>setSpeed\<close> ignores an input that does not parse to a
  number and nothing else: every number, zero included, becomes the multiplier, and on a
  mounted viewer the call also sets the clock's multiplier and forces the clock to run.
\<close>

theorem setSpeed_installs:
  "multiplier initialState = 10
   \<and> map_option clock_multiplier (viewer (initClock wallNow st))
       = map_option (\<lambda>v. 10) (viewer st)
   \<and> setSpeed None st = st
   \<and> multiplier (setSpeed (Some s) st) = s
   \<and> (\<forall>c. viewer st = Some c \<longrightarrow>
         viewer (setSpeed (Some s) st) = Some (c\<lparr>clock_multiplier := s, shouldAnimate := True\<rparr>)
         \<and> isPaused (setSpeed (Some s) st) = False)"
  by (auto simp: initialState_def initClock_def setSpeed_def Let_def split: option.splits)

theorem setSpeed_installs_witness:
  "viewer (demoState 0) = Some (demoViewer 0)
   \<and> viewer (setSpeed (Some 100) (demoState 0))
      = Some \<lparr>currentTime = 0, clock_multiplier = 100, shouldAnimate = True, trackedEntity = None\<rparr>
   \<and> multiplier (setSpeed (Some 100) (demoState 0)) = 100"
  using setSpeed_installs [of 0 "demoState 0" 100]
  by (simp add: demoState_def demoViewer_def)

text \<open>
  The claim's "a zero input never becomes the installed multiplier" fails: \<open>setSpeed\<close>
  of 0 installs 0, in the state and on the running clock.
\<close>

theorem setSpeed_zero_counterexample:
  "multiplier (setSpeed (Some 0) (demoState 0)) = 0
   \<and> map_option clock_multiplier (viewer (setSpeed (Some 0) (demoState 0))) = Some 0
   \<and> map_option shouldAnimate (viewer (setSpeed (Some 0) (demoState 0))) = Some True"
  by (simp add: setSpeed_def demoState_def demoViewer_def initialState_def)

section \<open>Freshness: properties\<close>

text \<open>The label follows the thresholds 3, 14 and 30 days, for every age.\<close>

lemma tleAgeLabel_thresholds:
  "(d < 3 \<longrightarrow> tleAgeLabel d = ''FRESH'')
   \<and> (3 \<le> d \<and> d < 14 \<longrightarrow> tleAgeLabel d = ''OK'')
   \<and> (14 \<le> d \<and> d < 30 \<longrightarrow> tleAgeLabel d = ''OLD'')
   \<and> (30 \<le> d \<longrightarrow> tleAgeLabel d = ''VERY OLD'')"
  by (simp add: tleAgeLabel_def)

text \<open>
  For an entry whose record \<open>getSatrec\<close> returns, with an epoch from 1970 on and inside
  the range of Dates, the flag is valid exactly when the age is at most 30 days.
\<close>

lemma validity_iff_age:
  assumes rec: "getSatrec lib s = Some r"
    and lo: "0 \<le> tleEpochMs r"
    and hi: "tleEpochMs r + 2592000000 \<le> 8640000000000000"
  shows "(\<not> isOutOfRange lib t s) = (tleAgeDays r t \<le> 30)"
proof -
  have jd: "jdsatepoch r \<noteq> 0" using lo by (auto simp: tleEpochMs_def)
  have fl: "real_of_int \<lfloor>tleEpochMs r\<rfloor> \<le> tleEpochMs r" by simp
  have ep: "getTleEpochDate lib s = Some \<lfloor>tleEpochMs r\<rfloor>"
    using rec jd lo hi by (simp add: getTleEpochDate_def timeClip_def)
  have nn: "0 \<le> \<lfloor>tleEpochMs r\<rfloor>" using lo by simp
  have ph: "plusHorizon \<lfloor>tleEpochMs r\<rfloor> = Some (\<lfloor>tleEpochMs r\<rfloor> + 2592000000)"
    using nn fl hi by (simp add: plusHorizon_def timeClip_def MAX_FUTURE_DAYS_def)
  have "(\<not> isOutOfRange lib t s) = (t - 2592000000 \<le> \<lfloor>tleEpochMs r\<rfloor>)"
    using ep ph by (auto simp: isOutOfRange_def)
  also have "\<dots> = (real_of_int (t - 2592000000) \<le> tleEpochMs r)"
    by (simp only: le_floor_iff)
  also have "\<dots> = (tleAgeDays r t \<le> 30)"
    by (simp add: tleAgeDays_def field_simps)
  finally show ?thesis .
qed

lemma demo_getSatrec: "getSatrec demoLib (ISS\<lparr>sat_id := 3\<rparr>) = Some demoRec"
  by (simp add: getSatrec_def demoLib_def stubLib_def ISS_def demoRec_def)

lemma demo_epoch: "tleEpochMs demoRec = 170713961716032 / 100"
  by (simp add: tleEpochMs_def demoRec_def)

text \<open>
  Claim C3 at the entry with id 0, the first of every catalog and the only one of the
  fallback. \<open>getSatrec\<close> takes the id 0 for a missing id and returns no record, so
  \<open>isOutOfRange\<close> is false at every instant: 31 days after the epoch of the ISS elements
  the flag still says valid, although the age is above 30 days and its label is VERY OLD.
  The same elements under the id 3 are out of range at that instant, as the claim says.
\<close>

theorem first_entry_always_valid:
  "getSatrec demoLib ISS = None
   \<and> isOutOfRange demoLib 1709818017160 ISS = False
   \<and> getSatrec demoLib (ISS\<lparr>sat_id := 3\<rparr>) = Some demoRec
   \<and> tleAgeDays demoRec 1709818017160 > 30
   \<and> tleAgeLabel (tleAgeDays demoRec 1709818017160) = ''VERY OLD''
   \<and> isOutOfRange demoLib 1709818017160 (ISS\<lparr>sat_id := 3\<rparr>) = True"
proof -
  have a: "getSatrec demoLib ISS = None" by (simp add: getSatrec_def ISS_def)
  have b: "isOutOfRange demoLib 1709818017160 ISS = False"
    by (simp add: isOutOfRange_def getTleEpochDate_def a)
  have age: "tleAgeDays demoRec 1709818017160 > 30"
    by (simp add: tleAgeDays_def demo_epoch)
  have lab: "tleAgeLabel (tleAgeDays demoRec 1709818017160) = ''VERY OLD''"
    using age by (simp add: tleAgeLabel_def)
  have fl: "\<lfloor>170713961716032 / 100 :: real\<rfloor> = 1707139617160"
    by (simp add: floor_eq_iff)
  have ep: "getTleEpochDate demoLib (ISS\<lparr>sat_id := 3\<rparr>) = Some 1707139617160"
    by (simp add: getTleEpochDate_def demo_getSatrec demo_epoch timeClip_def fl)
       (simp add: demoRec_def)
  have c: "isOutOfRange demoLib 1709818017160 (ISS\<lparr>sat_id := 3\<rparr>) = True"
    by (simp add: isOutOfRange_def ep plusHorizon_def timeClip_def MAX_FUTURE_DAYS_def)
  show ?thesis using a b demo_getSatrec age lab c by simp
qed

section \<open>Time-set requests: properties\<close>

lemma demo_epochMs: "jdsatepoch r = 2460346.0603838 \<Longrightarrow> tleEpochMs r = 170713961716032 / 100"
  by (simp add: tleEpochMs_def)

lemma demo_getSatrec_any:
  "sat_id s \<noteq> 0 \<Longrightarrow>
     getSatrec demoLib s = Some \<lparr>satnum = take 5 (drop 2 (line1 s)), jdsatepoch = 2460346.0603838\<rparr>"
  by (simp add: getSatrec_def demoLib_def stubLib_def)

lemma demo_epochDate:
  assumes "sat_id s \<noteq> 0"
  shows "getTleEpochDate demoLib s = Some 1707139617160"
proof -
  have fl: "\<lfloor>170713961716032 / 100 :: real\<rfloor> = 1707139617160"
    by (simp add: floor_eq_iff)
  have ms: "tleEpochMs \<lparr>satnum = take 5 (drop 2 (line1 s)), jdsatepoch = 2460346.0603838\<rparr>
            = 170713961716032 / 100"
    by (rule demo_epochMs) simp
  show ?thesis
    unfolding getTleEpochDate_def demo_getSatrec_any [OF assms] option.case ms
    by (simp add: timeClip_def fl)
qed

lemma plusHorizon_small:
  assumes "\<bar>d\<bar> \<le> 8000000000000000"
  shows "plusHorizon d = Some (d + 2592000000)"
proof -
  have "\<bar>real_of_int (d + 2592000000)\<bar> \<le> 8640000000000000"
    using assms by linarith
  then show ?thesis
    by (simp add: plusHorizon_def timeClip_def MAX_FUTURE_DAYS_def del: of_int_add)
qed

lemma demo_isOutOfRange:
  "sat_id s \<noteq> 0 \<Longrightarrow> isOutOfRange demoLib t s = (t > 1709731617160)"
  by (simp add: isOutOfRange_def demo_epochDate plusHorizon_small)

text \<open>
  The two ceilings of a time-set request hold: the installed instant is never after the
  target, never after now + 30 days, and never after epoch + 30 days of the selected
  object when its epoch Date exists.
\<close>

lemma clampDate_upper:
  "clampDate lib wallNow sel t \<le> t
   \<and> (\<forall>m. plusHorizon wallNow = Some m \<longrightarrow> clampDate lib wallNow sel t \<le> m)
   \<and> (\<forall>s e m. sel = Some s \<and> getTleEpochDate lib s = Some e \<and> plusHorizon e = Some m
         \<longrightarrow> clampDate lib wallNow sel t \<le> m)"
  by (auto simp: clampDate_def Let_def split: option.splits)

text \<open>
  Claim C1 at a target before the epoch. With \<open>satNear\<close> selected (epoch Date
  1707139617160) and the wall clock one day after the epoch, a request for the instant one
  day before the epoch installs that instant unchanged: \<open>handleDateChange\<close> compares the
  target with epoch + 30 days and with now + 30 days only, never with the epoch, although
  its comment reads "clamp MIN = TLE epoch".
\<close>

theorem handleDateChange_below_epoch:
  "getTleEpochDate demoLib satNear = Some 1707139617160
   \<and> clampDate demoLib 1707226017160 (Some satNear) 1707053217160 = 1707053217160
   \<and> map_option currentTime
        (viewer (handleDateChange demoLib 1707226017160 (Some 1707053217160)
                   ((demoState 1707226017160)\<lparr>selectedSat := Some satNear\<rparr>)))
      = Some 1707053217160"
proof -
  have id: "sat_id satNear \<noteq> 0" by (simp add: satNear_def)
  have c: "clampDate demoLib 1707226017160 (Some satNear) 1707053217160 = 1707053217160"
    by (simp add: clampDate_def demo_epochDate [OF id] plusHorizon_small)
  have "map_option currentTime
        (viewer (handleDateChange demoLib 1707226017160 (Some 1707053217160)
                   ((demoState 1707226017160)\<lparr>selectedSat := Some satNear\<rparr>)))
      = Some 1707053217160"
    by (simp add: handleDateChange_def c demo_isOutOfRange [OF id] calculatePreciseMovement_def
        demo_getSatrec_any [OF id] demoState_def Let_def)
  with c demo_epochDate [OF id] show ?thesis by simp
qed

section \<open>Selection by id: properties\<close>

lemma demo_filter_near_t:
  "filteredSatellites demoLib now ((demoState t)\<lparr>searchTerm := '' near ''\<rparr>) = [satNear]"
  by (simp add: filteredSatellites_def demoState_def initialState_def demoCatalog_def ISS_def
      satNear_def satLost_def satFar_def satTwin_def satClose_def trim_def isWhiteSpace_def toUpperCase_def
      toUpperChar_def)

lemma filtered_subset: "set (filteredSatellites lib now st) \<subseteq> set (satellites st)"
  by (auto simp: filteredSatellites_def Let_def)

lemma find_sat_id:
  "sid \<in> set (map sat_id xs) \<Longrightarrow> \<exists>s. find (\<lambda>x. sat_id x = sid) xs = Some s \<and> sat_id s = sid"
  by (induction xs) auto

lemma calculatePreciseMovement_sampled:
  "viewer st = Some v \<Longrightarrow> getSatrec lib s = Some r \<Longrightarrow>
   calculatePreciseMovement lib s st
     = st\<lparr>selectedSatPathRef := Some (histLoop lib r (currentTime v) (- 240) []),
          selectedSatPath := Some (histLoop lib r (currentTime v) (- 240) [])\<rparr>"
  by (simp add: calculatePreciseMovement_def Let_def)

lemma updateInfoPanel_fields [simp]:
  "viewer (updateInfoPanel lib s st) = viewer st"
  "selectedSat (updateInfoPanel lib s st) = selectedSat st"
  "selectedSatPath (updateInfoPanel lib s st) = selectedSatPath st"
  "selectedSatPathRef (updateInfoPanel lib s st) = selectedSatPathRef st"
  "isTleOutOfRange (updateInfoPanel lib s st) = isTleOutOfRange st"
  "satellites (updateInfoPanel lib s st) = satellites st"
  by (simp_all add: updateInfoPanel_def Let_def split: option.splits)

lemma calculatePreciseMovement_fields [simp]:
  "viewer (calculatePreciseMovement lib s st) = viewer st"
  "selectedSat (calculatePreciseMovement lib s st) = selectedSat st"
  "isTleOutOfRange (calculatePreciseMovement lib s st) = isTleOutOfRange st"
  "satellites (calculatePreciseMovement lib s st) = satellites st"
  "selectedSatData (calculatePreciseMovement lib s st) = selectedSatData st"
  by (simp_all add: calculatePreciseMovement_def Let_def split: option.splits)

lemma updateInfoPanel_published:
  "viewer st = Some v \<Longrightarrow> getSatrec lib s = Some r \<Longrightarrow> propagate lib r (currentTime v) = Some pv \<Longrightarrow>
   selectedSatData (updateInfoPanel lib s st)
     = Some \<lparr>info_name = name s, info_satId = sat_id s,
             info_tleAgeDays = tleAgeDays r (currentTime v),
             info_tleAgeLabel = tleAgeLabel (tleAgeDays r (currentTime v))\<rparr>"
  by (simp add: updateInfoPanel_def Let_def)

text \<open>
  Claim C4, as the code has it. \<open>selectSatelliteById\<close> looks the id up in the whole
  catalog, not in the filtered view. For an id that the catalog does not hold it changes
  nothing. An id of the filtered view is an id of the catalog. For an id of the catalog,
  in the filtered view or not, it selects the entry found and sets the out-of-range flag
  from the clock's instant (the wall clock without a viewer); when the viewer is mounted,
  the entry's propagation record is available and the instant is in range, it samples the
  history path around the clock's instant and, if the propagation at that instant does not
  throw, publishes the age and its label.
\<close>

theorem select_by_catalog:
  "(find (\<lambda>x. sat_id x = satId) (satellites st) = None \<longrightarrow>
      selectSatelliteById lib wallNow satId st = st)
   \<and> (satId \<in> set (map sat_id (filteredSatellites lib now st)) \<longrightarrow>
      (\<exists>s. find (\<lambda>x. sat_id x = satId) (satellites st) = Some s \<and> sat_id s = satId))
   \<and> (\<forall>s. find (\<lambda>x. sat_id x = satId) (satellites st) = Some s \<longrightarrow>
        selectedSat (selectSatelliteById lib wallNow satId st) = Some s
        \<and> isTleOutOfRange (selectSatelliteById lib wallNow satId st)
            = isOutOfRange lib (case viewer st of Some v \<Rightarrow> currentTime v | None \<Rightarrow> wallNow) s
        \<and> (\<forall>v r. viewer st = Some v \<and> getSatrec lib s = Some r
                   \<and> \<not> isOutOfRange lib (currentTime v) s \<longrightarrow>
               selectedSatPath (selectSatelliteById lib wallNow satId st)
                 = Some (histLoop lib r (currentTime v) (- 240) [])
               \<and> (\<forall>pv. propagate lib r (currentTime v) = Some pv \<longrightarrow>
                     selectedSatData (selectSatelliteById lib wallNow satId st)
                       = Some \<lparr>info_name = name s, info_satId = sat_id s,
                               info_tleAgeDays = tleAgeDays r (currentTime v),
                               info_tleAgeLabel = tleAgeLabel (tleAgeDays r (currentTime v))\<rparr>)))"
proof (intro conjI impI allI)
  assume "find (\<lambda>x. sat_id x = satId) (satellites st) = None"
  then show "selectSatelliteById lib wallNow satId st = st"
    by (simp add: selectSatelliteById_def)
next
  assume "satId \<in> set (map sat_id (filteredSatellites lib now st))"
  then have "satId \<in> set (map sat_id (satellites st))"
    using filtered_subset [of lib now st] by auto
  then show "\<exists>s. find (\<lambda>x. sat_id x = satId) (satellites st) = Some s \<and> sat_id s = satId"
    by (rule find_sat_id)
next
  fix s assume f: "find (\<lambda>x. sat_id x = satId) (satellites st) = Some s"
  show "selectedSat (selectSatelliteById lib wallNow satId st) = Some s"
    using f by (simp add: selectSatelliteById_def Let_def split: option.splits)
  show "isTleOutOfRange (selectSatelliteById lib wallNow satId st)
            = isOutOfRange lib (case viewer st of Some v \<Rightarrow> currentTime v | None \<Rightarrow> wallNow) s"
    using f by (simp add: selectSatelliteById_def Let_def split: option.splits)
next
  fix s v r
  assume f: "find (\<lambda>x. sat_id x = satId) (satellites st) = Some s"
    and h: "viewer st = Some v \<and> getSatrec lib s = Some r \<and> \<not> isOutOfRange lib (currentTime v) s"
  show "selectedSatPath (selectSatelliteById lib wallNow satId st)
                 = Some (histLoop lib r (currentTime v) (- 240) [])"
    using f h by (simp add: selectSatelliteById_def Let_def calculatePreciseMovement_def)
next
  fix s v r pv
  assume f: "find (\<lambda>x. sat_id x = satId) (satellites st) = Some s"
    and h: "viewer st = Some v \<and> getSatrec lib s = Some r \<and> \<not> isOutOfRange lib (currentTime v) s"
    and p: "propagate lib r (currentTime v) = Some pv"
  show "selectedSatData (selectSatelliteById lib wallNow satId st)
                       = Some \<lparr>info_name = name s, info_satId = sat_id s,
                               info_tleAgeDays = tleAgeDays r (currentTime v),
                               info_tleAgeLabel = tleAgeLabel (tleAgeDays r (currentTime v))\<rparr>"
    using f h p
    by (simp add: selectSatelliteById_def Let_def calculatePreciseMovement_def updateInfoPanel_def)
qed


theorem select_by_catalog_witness:
  "selectSatelliteById demoLib 0 4 ((demoState 1707226017160)\<lparr>searchTerm := '' near ''\<rparr>)
     = (demoState 1707226017160)\<lparr>searchTerm := '' near ''\<rparr>
   \<and> selectedSat (selectSatelliteById demoLib 0 3
        ((demoState 1707226017160)\<lparr>searchTerm := '' near ''\<rparr>)) = Some satNear
   \<and> selectedSatPath (selectSatelliteById demoLib 0 3
        ((demoState 1707226017160)\<lparr>searchTerm := '' near ''\<rparr>))
       = Some (histLoop demoLib \<lparr>satnum = ''00001'', jdsatepoch = 2460346.0603838\<rparr>
                 1707226017160 (- 240) [])
   \<and> map_option info_tleAgeLabel (selectedSatData (selectSatelliteById demoLib 0 3
        ((demoState 1707226017160)\<lparr>searchTerm := '' near ''\<rparr>))) = Some ''FRESH''"
proof -
  let ?S = "(demoState 1707226017160)\<lparr>searchTerm := '' near ''\<rparr>"
  let ?R = "\<lparr>satnum = ''00001'', jdsatepoch = 2460346.0603838\<rparr>"
  let ?PV = "\<lparr>position = Some \<lparr>vx = 6478137, vy = 0, vz = 0\<rparr>,
               velocity = Some \<lparr>vx = 0, vy = 0, vz = 0\<rparr>\<rparr>"
  have id: "sat_id satNear \<noteq> 0" by (simp add: satNear_def)
  have f4: "find (\<lambda>x. sat_id x = 4) (satellites ?S) = None"
    by (simp add: demoState_def demoCatalog_def ISS_def satNear_def satLost_def satFar_def
        satTwin_def satClose_def)
  have f3: "find (\<lambda>x. sat_id x = 3) (satellites ?S) = Some satNear"
    by (simp add: demoState_def demoCatalog_def ISS_def satNear_def)
  have vis: "3 \<in> set (map sat_id (filteredSatellites demoLib 0 ?S))"
    by (simp add: demo_filter_near_t satNear_def)
  have v: "viewer ?S = Some (demoViewer 1707226017160)"
    by (simp add: demoState_def)
  have r: "getSatrec demoLib satNear = Some ?R"
    using demo_getSatrec_any [OF id] by (simp add: satNear_def)
  have inr: "\<not> isOutOfRange demoLib (currentTime (demoViewer 1707226017160)) satNear"
    by (simp add: demo_isOutOfRange [OF id] demoViewer_def)
  have p: "propagate demoLib ?R (currentTime (demoViewer 1707226017160)) = Some ?PV"
    by (simp add: demoLib_def stubLib_def demoPos_def)
  have age: "tleAgeLabel (tleAgeDays ?R (currentTime (demoViewer 1707226017160))) = ''FRESH''"
    by (simp add: tleAgeLabel_def tleAgeDays_def tleEpochMs_def demoViewer_def)
  show ?thesis
    using select_by_catalog [of 4 ?S demoLib 0 0] select_by_catalog [of 3 ?S demoLib 0 0]
      f4 f3 vis v r inr p age
    by (simp add: demoViewer_def)
qed

text \<open>
  The claim's "for every id not in the filtered view, select(id) does not enter
  TRACKING(id) and triggers no sampling" fails: with the search term " near " the filtered
  view holds the id 3 only, and selecting the id 9 selects \<open>satFar\<close> and samples its path.
\<close>

theorem select_outside_filter_counterexample:
  "map sat_id (filteredSatellites demoLib 0
       ((demoState 1707226017160)\<lparr>searchTerm := '' near ''\<rparr>)) = [3]
   \<and> selectedSat (selectSatelliteById demoLib 0 9
        ((demoState 1707226017160)\<lparr>searchTerm := '' near ''\<rparr>)) = Some satFar
   \<and> selectedSatPath (selectSatelliteById demoLib 0 9
        ((demoState 1707226017160)\<lparr>searchTerm := '' near ''\<rparr>))
       = Some (histLoop demoLib \<lparr>satnum = ''00002'', jdsatepoch = 2460346.0603838\<rparr>
                 1707226017160 (- 240) [])"
proof -
  let ?S = "(demoState 1707226017160)\<lparr>searchTerm := '' near ''\<rparr>"
  have id: "sat_id satFar \<noteq> 0" by (simp add: satFar_def)
  have f9: "find (\<lambda>x. sat_id x = 9) (satellites ?S) = Some satFar"
    by (simp add: demoState_def demoCatalog_def ISS_def satNear_def satLost_def satFar_def)
  have v: "viewer ?S = Some (demoViewer 1707226017160)"
    by (simp add: demoState_def)
  have r: "getSatrec demoLib satFar = Some \<lparr>satnum = ''00002'', jdsatepoch = 2460346.0603838\<rparr>"
    using demo_getSatrec_any [OF id] by (simp add: satFar_def)
  have inr: "\<not> isOutOfRange demoLib 1707226017160 satFar"
    by (simp add: demo_isOutOfRange [OF id])
  have a: "selectedSat (selectSatelliteById demoLib 0 9 ?S) = Some satFar"
    using f9 by (simp add: selectSatelliteById_def Let_def split: option.splits)
  have b: "selectedSatPath (selectSatelliteById demoLib 0 9 ?S)
       = Some (histLoop demoLib \<lparr>satnum = ''00002'', jdsatepoch = 2460346.0603838\<rparr>
                 1707226017160 (- 240) [])"
    using f9 v r inr
    by (simp add: selectSatelliteById_def Let_def calculatePreciseMovement_def demoViewer_def)
  show ?thesis
    using a b by (simp add: demo_filter_near_t satNear_def)
qed

section \<open>Validity and path sampling: properties\<close>

lemma onTick_ui:
  assumes "viewer st = Some clock" and "nowMs - lastTickTime st > 1000"
  shows "selectedSat (onTick lib visible nowMs st)
           = selectedSat (tickUi lib clock (st\<lparr>lastTickTime := nowMs\<rparr>))"
    and "selectedSatPath (onTick lib visible nowMs st)
           = selectedSatPath (tickUi lib clock (st\<lparr>lastTickTime := nowMs\<rparr>))"
    and "selectedSatPathRef (onTick lib visible nowMs st)
           = selectedSatPathRef (tickUi lib clock (st\<lparr>lastTickTime := nowMs\<rparr>))"
    and "isTleOutOfRange (onTick lib visible nowMs st)
           = isTleOutOfRange (tickUi lib clock (st\<lparr>lastTickTime := nowMs\<rparr>))"
  using assms by (simp_all add: onTick_def Let_def split: option.splits)

lemma onTick_idle:
  assumes "viewer st = None \<or> nowMs - lastTickTime st \<le> 1000"
  shows "selectedSat (onTick lib visible nowMs st) = selectedSat st"
    and "selectedSatPath (onTick lib visible nowMs st) = selectedSatPath st"
    and "selectedSatPathRef (onTick lib visible nowMs st) = selectedSatPathRef st"
    and "isTleOutOfRange (onTick lib visible nowMs st) = isTleOutOfRange st"
  using assms by (auto simp: onTick_def Let_def split: option.splits)

lemma tickUi_invalid:
  assumes "selectedSat st = Some s" and "isOutOfRange lib (currentTime clock) s"
    and "\<not> isTleOutOfRange st"
  shows "isTleOutOfRange (tickUi lib clock st)"
    and "selectedSatPath (tickUi lib clock st) = None"
    and "selectedSatPathRef (tickUi lib clock st) = None"
    and "selectedSat (tickUi lib clock st) = Some s"
  using assms by (simp_all add: tickUi_def Let_def)

lemma tickUi_valid:
  assumes "selectedSat st = Some s" and "\<not> isOutOfRange lib (currentTime clock) s"
    and "isTleOutOfRange st" and "viewer st = Some clock" and "getSatrec lib s = Some r"
  shows "\<not> isTleOutOfRange (tickUi lib clock st)"
    and "selectedSatPath (tickUi lib clock st) = Some (histLoop lib r (currentTime clock) (- 240) [])"
    and "selectedSatPathRef (tickUi lib clock st) = Some (histLoop lib r (currentTime clock) (- 240) [])"
    and "selectedSat (tickUi lib clock st) = Some s"
  using assms by (simp_all add: tickUi_def Let_def calculatePreciseMovement_def)

lemma tickUi_suppressed: "pathSuppressed st \<Longrightarrow> pathSuppressed (tickUi lib clock st)"
  by (auto simp: pathSuppressed_def tickUi_def Let_def split: option.splits if_splits)

lemma onTick_suppressed: "pathSuppressed st \<Longrightarrow> pathSuppressed (onTick lib visible nowMs st)"
proof (cases "viewer st = None \<or> nowMs - lastTickTime st \<le> 1000")
  case True
  assume "pathSuppressed st"
  then show ?thesis
    by (simp add: pathSuppressed_def onTick_idle [OF True])
next
  case False
  then obtain clock where v: "viewer st = Some clock" and t: "nowMs - lastTickTime st > 1000"
    by auto
  assume "pathSuppressed st"
  then have "pathSuppressed (st\<lparr>lastTickTime := nowMs\<rparr>)"
    by (simp add: pathSuppressed_def)
  then have "pathSuppressed (tickUi lib clock (st\<lparr>lastTickTime := nowMs\<rparr>))"
    by (rule tickUi_suppressed)
  then show ?thesis
    by (simp add: pathSuppressed_def onTick_ui [OF v t])
qed

lemma select_suppressed:
  "pathSuppressed st \<Longrightarrow> pathSuppressed (selectSatelliteById lib wallNow satId st)"
  by (auto simp: pathSuppressed_def selectSatelliteById_def Let_def
      split: option.splits if_splits)

lemma handleDateChange_suppressed:
  "pathSuppressed st \<Longrightarrow> pathSuppressed (handleDateChange lib wallNow picked st)"
  by (auto simp: pathSuppressed_def handleDateChange_def Let_def
      split: option.splits if_splits)

lemma clear_suppressed: "pathSuppressed (clearSelection st)"
  by (simp add: pathSuppressed_def clearSelection_def Let_def split: option.splits)

lemma select_invalid:
  assumes "find (\<lambda>x. sat_id x = satId) (satellites st) = Some s"
    and "isOutOfRange lib (case viewer st of Some v \<Rightarrow> currentTime v | None \<Rightarrow> wallNow) s"
  shows "selectedSat (selectSatelliteById lib wallNow satId st) = Some s"
    and "isTleOutOfRange (selectSatelliteById lib wallNow satId st)"
    and "selectedSatPath (selectSatelliteById lib wallNow satId st) = None"
    and "selectedSatPathRef (selectSatelliteById lib wallNow satId st) = None"
  using assms by (auto simp: selectSatelliteById_def Let_def split: option.splits)


lemma showsOrbitPath_valid: "showsOrbitPath visible st \<Longrightarrow> \<not> isTleOutOfRange st"
  by (simp add: showsOrbitPath_def)

text \<open>
  Claim C2, the validity flag being the negation of \<open>isOutOfRange\<close> as the handlers
  compute it. Selecting an object that is out of range at the clock's instant builds no
  path: the object is selected, the flag is set, the path is empty in state and ref, the
  path entity group and the future path are not rendered, and the plain point is (when the
  object is in the visible list). On a tick (the once-per-second part) where the flag was
  valid and the object is now out of range, the cached path is discarded and the selection
  kept; where the flag was invalid and the object is in range again, the history path is
  sampled anew around the clock's instant. In every state with the flag set, neither the
  path group nor the future sampler is rendered; and selecting, ticking and setting the
  time all preserve that a set flag comes with no path.
\<close>

theorem sampling_suppressed_when_invalid:
  "(\<forall>s. find (\<lambda>x. sat_id x = satId) (satellites st) = Some s
         \<and> isOutOfRange lib (case viewer st of Some v \<Rightarrow> currentTime v | None \<Rightarrow> wallNow) s \<longrightarrow>
       selectedSat (selectSatelliteById lib wallNow satId st) = Some s
       \<and> isTleOutOfRange (selectSatelliteById lib wallNow satId st)
       \<and> selectedSatPath (selectSatelliteById lib wallNow satId st) = None
       \<and> selectedSatPathRef (selectSatelliteById lib wallNow satId st) = None
       \<and> \<not> showsOrbitPath visible (selectSatelliteById lib wallNow satId st)
       \<and> renderedFuturePath lib visible (selectSatelliteById lib wallNow satId st) = None
       \<and> (sat_id s \<in> set (map sat_id visible) \<longrightarrow>
            showsStaticMarker visible (selectSatelliteById lib wallNow satId st)))
   \<and> (\<forall>s clock. viewer st = Some clock \<and> nowMs - lastTickTime st > 1000
         \<and> selectedSat st = Some s \<and> \<not> isTleOutOfRange st
         \<and> isOutOfRange lib (currentTime clock) s \<longrightarrow>
       selectedSat (onTick lib visible nowMs st) = Some s
       \<and> isTleOutOfRange (onTick lib visible nowMs st)
       \<and> selectedSatPath (onTick lib visible nowMs st) = None
       \<and> selectedSatPathRef (onTick lib visible nowMs st) = None)
   \<and> (\<forall>s clock r. viewer st = Some clock \<and> nowMs - lastTickTime st > 1000
         \<and> selectedSat st = Some s \<and> isTleOutOfRange st
         \<and> \<not> isOutOfRange lib (currentTime clock) s \<and> getSatrec lib s = Some r \<longrightarrow>
       selectedSat (onTick lib visible nowMs st) = Some s
       \<and> \<not> isTleOutOfRange (onTick lib visible nowMs st)
       \<and> selectedSatPath (onTick lib visible nowMs st)
           = Some (histLoop lib r (currentTime clock) (- 240) [])
       \<and> selectedSatPathRef (onTick lib visible nowMs st)
           = Some (histLoop lib r (currentTime clock) (- 240) []))
   \<and> (isTleOutOfRange st \<longrightarrow>
         \<not> showsOrbitPath visible st \<and> renderedFuturePath lib visible st = None)
   \<and> (pathSuppressed st \<longrightarrow>
         pathSuppressed (selectSatelliteById lib wallNow satId st)
         \<and> pathSuppressed (onTick lib visible nowMs st)
         \<and> pathSuppressed (handleDateChange lib wallNow picked st))"
proof (intro conjI allI impI)
  fix s
  assume h: "find (\<lambda>x. sat_id x = satId) (satellites st) = Some s
         \<and> isOutOfRange lib (case viewer st of Some v \<Rightarrow> currentTime v | None \<Rightarrow> wallNow) s"
  let ?st' = "selectSatelliteById lib wallNow satId st"
  note r = select_invalid [OF conjunct1 [OF h] conjunct2 [OF h]]
  show "selectedSat ?st' = Some s" "isTleOutOfRange ?st'" "selectedSatPath ?st' = None"
    "selectedSatPathRef ?st' = None"
    using r by simp_all
  show "\<not> showsOrbitPath visible ?st'"
    using r by (simp add: showsOrbitPath_def)
  then show "renderedFuturePath lib visible ?st' = None"
    by (simp add: renderedFuturePath_def)
  assume "sat_id s \<in> set (map sat_id visible)"
  then show "showsStaticMarker visible ?st'"
    using r by (simp add: showsStaticMarker_def isSelectionInFilter_def list_ex_sat_id)
next
  fix s clock
  assume h: "viewer st = Some clock \<and> nowMs - lastTickTime st > 1000
         \<and> selectedSat st = Some s \<and> \<not> isTleOutOfRange st
         \<and> isOutOfRange lib (currentTime clock) s"
  then have v: "viewer st = Some clock" and t: "nowMs - lastTickTime st > 1000" by simp_all
  have r: "isTleOutOfRange (tickUi lib clock (st\<lparr>lastTickTime := nowMs\<rparr>))"
    "selectedSatPath (tickUi lib clock (st\<lparr>lastTickTime := nowMs\<rparr>)) = None"
    "selectedSatPathRef (tickUi lib clock (st\<lparr>lastTickTime := nowMs\<rparr>)) = None"
    "selectedSat (tickUi lib clock (st\<lparr>lastTickTime := nowMs\<rparr>)) = Some s"
    using h by (simp_all add: tickUi_invalid [where s = s])
  show "selectedSat (onTick lib visible nowMs st) = Some s"
    "isTleOutOfRange (onTick lib visible nowMs st)"
    "selectedSatPath (onTick lib visible nowMs st) = None"
    "selectedSatPathRef (onTick lib visible nowMs st) = None"
    using r by (simp_all add: onTick_ui [OF v t])
next
  fix s clock r
  assume h: "viewer st = Some clock \<and> nowMs - lastTickTime st > 1000
         \<and> selectedSat st = Some s \<and> isTleOutOfRange st
         \<and> \<not> isOutOfRange lib (currentTime clock) s \<and> getSatrec lib s = Some r"
  then have v: "viewer st = Some clock" and t: "nowMs - lastTickTime st > 1000" by simp_all
  have q: "\<not> isTleOutOfRange (tickUi lib clock (st\<lparr>lastTickTime := nowMs\<rparr>))"
    "selectedSatPath (tickUi lib clock (st\<lparr>lastTickTime := nowMs\<rparr>))
       = Some (histLoop lib r (currentTime clock) (- 240) [])"
    "selectedSatPathRef (tickUi lib clock (st\<lparr>lastTickTime := nowMs\<rparr>))
       = Some (histLoop lib r (currentTime clock) (- 240) [])"
    "selectedSat (tickUi lib clock (st\<lparr>lastTickTime := nowMs\<rparr>)) = Some s"
    using h by (simp_all add: tickUi_valid [where s = s and r = r])
  show "selectedSat (onTick lib visible nowMs st) = Some s"
    "\<not> isTleOutOfRange (onTick lib visible nowMs st)"
    "selectedSatPath (onTick lib visible nowMs st)
           = Some (histLoop lib r (currentTime clock) (- 240) [])"
    "selectedSatPathRef (onTick lib visible nowMs st)
           = Some (histLoop lib r (currentTime clock) (- 240) [])"
    using q by (simp_all add: onTick_ui [OF v t])
next
  assume "isTleOutOfRange st"
  then show "\<not> showsOrbitPath visible st" by (simp add: showsOrbitPath_def)
  then show "renderedFuturePath lib visible st = None" by (simp add: renderedFuturePath_def)
next
  assume p: "pathSuppressed st"
  show "pathSuppressed (selectSatelliteById lib wallNow satId st)"
    using p by (rule select_suppressed)
  show "pathSuppressed (onTick lib visible nowMs st)"
    using p by (rule onTick_suppressed)
  show "pathSuppressed (handleDateChange lib wallNow picked st)"
    using p by (rule handleDateChange_suppressed)
qed

theorem sampling_suppressed_when_invalid_witness:
  "isTleOutOfRange (selectSatelliteById demoLib 0 3 (demoState 1709818017160))
   \<and> selectedSatPath (selectSatelliteById demoLib 0 3 (demoState 1709818017160)) = None
   \<and> showsStaticMarker demoCatalog (selectSatelliteById demoLib 0 3 (demoState 1709818017160))
   \<and> isTleOutOfRange (onTick demoLib demoCatalog 5000
        ((demoState 1709818017160)\<lparr>selectedSat := Some satNear, selectedSatPath := Some [],
            selectedSatPathRef := Some []\<rparr>))
   \<and> selectedSatPath (onTick demoLib demoCatalog 5000
        ((demoState 1709818017160)\<lparr>selectedSat := Some satNear, selectedSatPath := Some [],
            selectedSatPathRef := Some []\<rparr>)) = None
   \<and> selectedSatPath (onTick demoLib demoCatalog 5000
        ((demoState 1707226017160)\<lparr>selectedSat := Some satNear, isTleOutOfRange := True\<rparr>))
       = Some (histLoop demoLib \<lparr>satnum = ''00001'', jdsatepoch = 2460346.0603838\<rparr>
                 1707226017160 (- 240) [])
   \<and> pathSuppressed (handleDateChange demoLib 0 (Some 1709818017160)
        ((demoState 1707226017160)\<lparr>selectedSat := Some satNear\<rparr>))"
proof -
  let ?A = "demoState 1709818017160"
  let ?B = "(demoState 1709818017160)\<lparr>selectedSat := Some satNear, selectedSatPath := Some [],
            selectedSatPathRef := Some []\<rparr>"
  let ?C = "(demoState 1707226017160)\<lparr>selectedSat := Some satNear, isTleOutOfRange := True\<rparr>"
  let ?D = "(demoState 1707226017160)\<lparr>selectedSat := Some satNear\<rparr>"
  let ?R = "\<lparr>satnum = ''00001'', jdsatepoch = 2460346.0603838\<rparr>"
  have id: "sat_id satNear \<noteq> 0" by (simp add: satNear_def)
  have r: "getSatrec demoLib satNear = Some ?R"
    using demo_getSatrec_any [OF id] by (simp add: satNear_def)
  have out: "isOutOfRange demoLib 1709818017160 satNear"
    by (simp add: demo_isOutOfRange [OF id])
  have inr: "\<not> isOutOfRange demoLib 1707226017160 satNear"
    by (simp add: demo_isOutOfRange [OF id])
  have a1: "find (\<lambda>x. sat_id x = 3) (satellites ?A) = Some satNear"
    by (simp add: demoState_def demoCatalog_def ISS_def satNear_def)
  have a2: "isOutOfRange demoLib (case viewer ?A of Some v \<Rightarrow> currentTime v | None \<Rightarrow> 0) satNear"
    using out by (simp add: demoState_def demoViewer_def)
  have a3: "sat_id satNear \<in> set (map sat_id demoCatalog)"
    by (simp add: demoCatalog_def)
  have b: "viewer ?B = Some (demoViewer 1709818017160) \<and> 5000 - lastTickTime ?B > 1000
         \<and> selectedSat ?B = Some satNear \<and> \<not> isTleOutOfRange ?B
         \<and> isOutOfRange demoLib (currentTime (demoViewer 1709818017160)) satNear"
    using out by (simp add: demoState_def demoViewer_def initialState_def)
  have c: "viewer ?C = Some (demoViewer 1707226017160) \<and> 5000 - lastTickTime ?C > 1000
         \<and> selectedSat ?C = Some satNear \<and> isTleOutOfRange ?C
         \<and> \<not> isOutOfRange demoLib (currentTime (demoViewer 1707226017160)) satNear
         \<and> getSatrec demoLib satNear = Some ?R"
    using inr r by (simp add: demoState_def demoViewer_def initialState_def)
  have d: "pathSuppressed ?D"
    by (simp add: pathSuppressed_def demoState_def initialState_def)
  note A = sampling_suppressed_when_invalid
    [where satId = 3 and st = ?A and lib = demoLib and wallNow = 0 and visible = demoCatalog]
  note B = sampling_suppressed_when_invalid
    [where st = ?B and lib = demoLib and nowMs = 5000 and visible = demoCatalog]
  note C = sampling_suppressed_when_invalid
    [where st = ?C and lib = demoLib and nowMs = 5000 and visible = demoCatalog]
  note D = sampling_suppressed_when_invalid
    [where st = ?D and lib = demoLib and wallNow = 0 and picked = "Some 1709818017160"]
  have ra: "isTleOutOfRange (selectSatelliteById demoLib 0 3 ?A)
      \<and> selectedSatPath (selectSatelliteById demoLib 0 3 ?A) = None
      \<and> showsStaticMarker demoCatalog (selectSatelliteById demoLib 0 3 ?A)"
    using A a1 a2 a3 by blast
  have rb: "isTleOutOfRange (onTick demoLib demoCatalog 5000 ?B)
      \<and> selectedSatPath (onTick demoLib demoCatalog 5000 ?B) = None"
    using B b by blast
  have rc: "selectedSatPath (onTick demoLib demoCatalog 5000 ?C)
       = Some (histLoop demoLib ?R (currentTime (demoViewer 1707226017160)) (- 240) [])"
    using C c by blast
  have rd: "pathSuppressed (handleDateChange demoLib 0 (Some 1709818017160) ?D)"
    using D d by blast
  show ?thesis
    using ra rb rc rd by (simp add: demoViewer_def)
qed

section \<open>Proximity scan: properties\<close>

lemma scanEntry_Some:
  "scanEntry lib t target rng s = Some e \<Longrightarrow>
     distanceKm e * 1000 < rng \<and> found_id e = sat_id s \<and> found_name e = name s
     \<and> (\<exists>r c. getSatrec lib s = Some r \<and> cartesianAt lib r t = Some c
            \<and> distanceKm e = distance3 c target / 1000)"
  by (auto simp: scanEntry_def split: option.splits if_splits)

lemma scanEntry_failed:
  "getSatrec lib s = None \<or> (\<exists>r. getSatrec lib s = Some r \<and> cartesianAt lib r t = None)
     \<Longrightarrow> scanEntry lib t target rng s = None"
  by (auto simp: scanEntry_def)

lemma set_map_filter: "set (List.map_filter f xs) = {e. \<exists>x \<in> set xs. f x = Some e}"
  by (induction xs) (auto split: option.splits)

lemma distance3_nonneg: "0 \<le> distance3 a b"
  by (simp add: distance3_def)

lemma distance3_x:
  "distance3 \<lparr>vx = a, vy = b, vz = c\<rparr> \<lparr>vx = a', vy = b, vz = c\<rparr> = \<bar>a - a'\<bar>"
  by (simp add: distance3_def)

lemma demo_cartesianAt:
  "demoPos n = Some p \<Longrightarrow>
   cartesianAt demoLib \<lparr>satnum = n, jdsatepoch = jd\<rparr> t = Some \<lparr>vx = vx p, vy = vy p, vz = vz p * 1000\<rparr>"
  by (simp add: cartesianAt_def demoLib_def stubLib_def Let_def)

lemma demo_cartesianAt_none:
  "demoPos n = None \<Longrightarrow> cartesianAt demoLib \<lparr>satnum = n, jdsatepoch = jd\<rparr> t = None"
  by (simp add: cartesianAt_def demoLib_def stubLib_def Let_def)

lemma demo_scanEntries:
  "scanEntry demoLib t demoTarget 500000 ISS = None"
  "scanEntry demoLib t demoTarget 500000 satNear
     = Some \<lparr>found_name = ''NEAR'', found_id = 3, distanceKm = 100\<rparr>"
  "scanEntry demoLib t demoTarget 500000 satLost = None"
  "scanEntry demoLib t demoTarget 500000 satFar = None"
  "scanEntry demoLib t demoTarget 500000 satTwin
     = Some \<lparr>found_name = ''TWIN'', found_id = 12, distanceKm = 100\<rparr>"
  "scanEntry demoLib t demoTarget 500000 satClose
     = Some \<lparr>found_name = ''CLOSE'', found_id = 15, distanceKm = 50\<rparr>"
  by (simp_all add: scanEntry_def getSatrec_def ISS_def satNear_def satLost_def satFar_def
      satTwin_def satClose_def demoLib_def stubLib_def demoPos_def cartesianAt_def Let_def
      demoTarget_def distance3_x)

lemma demo_scanFound:
  "scanFound demoLib demoCatalog 1707226017160 demoTarget scanState
     = [\<lparr>found_name = ''CLOSE'', found_id = 15, distanceKm = 50\<rparr>,
        \<lparr>found_name = ''NEAR'', found_id = 3, distanceKm = 100\<rparr>,
        \<lparr>found_name = ''TWIN'', found_id = 12, distanceKm = 100\<rparr>]"
proof -
  have r: "scanRadius scanState * 1000 = 500000"
    by (simp add: scanState_def demoState_def initialState_def)
  have sub: "subsetToCheck demoCatalog scanState = demoCatalog"
    by (simp add: subsetToCheck_def demoCatalog_def)
  show ?thesis
    unfolding scanFound_def Let_def r sub scanLoop_closed
    by (simp add: demoCatalog_def demo_scanEntries)
qed

text \<open>
  Claim C5. For every scan cycle the list of entries found is sorted ascending by distance;
  entries at the same distance stay in the order in which the loop met them, which is the
  order of the scanned subset of the catalog (stable sort); every entry kept is at a
  distance strictly below the scan radius; the entries are exactly those of the objects of
  the subset that have a record, a position at the scan instant and a distance below the
  radius, so an object whose record or propagation fails is left out and the objects after
  it are still scanned. The published list \<open>intercepts\<close> is that list, entry by entry, with
  the distance rounded for display.
\<close>

theorem scan_sorted_within_radius:
  "sorted (map distanceKm (scanFound lib visible t target st))
   \<and> (\<forall>d. filter (\<lambda>x. distanceKm x = d) (scanFound lib visible t target st)
          = filter (\<lambda>x. distanceKm x = d)
              (List.map_filter (scanEntry lib t target (scanRadius st * 1000))
                 (subsetToCheck visible st)))
   \<and> (\<forall>x \<in> set (scanFound lib visible t target st). distanceKm x < scanRadius st)
   \<and> set (scanFound lib visible t target st)
       = {e. \<exists>s \<in> set (subsetToCheck visible st).
               scanEntry lib t target (scanRadius st * 1000) s = Some e}
   \<and> (\<forall>s \<in> set (subsetToCheck visible st).
         getSatrec lib s = None \<or> (\<exists>r. getSatrec lib s = Some r \<and> cartesianAt lib r t = None)
         \<longrightarrow> scanEntry lib t target (scanRadius st * 1000) s = None)
   \<and> (\<forall>clock tgt. viewer st = Some clock \<and> groundTarget st = Some tgt
         \<and> nowMs - lastScannerCheck st > 2000 \<longrightarrow>
         intercepts (onTick lib visible nowMs st)
           = map toIntercept (scanFound lib visible (currentTime clock) tgt st))"
proof -
  let ?raw = "List.map_filter (scanEntry lib t target (scanRadius st * 1000))
                 (subsetToCheck visible st)"
  have sf: "scanFound lib visible t target st = sort_key distanceKm ?raw"
    by (simp add: scanFound_def scanLoop_closed)
  have s1: "sorted (map distanceKm (scanFound lib visible t target st))"
    unfolding sf by (rule sorted_sort_key)
  have s2: "\<forall>d. filter (\<lambda>x. distanceKm x = d) (scanFound lib visible t target st)
          = filter (\<lambda>x. distanceKm x = d) ?raw"
    unfolding sf by (simp add: sort_key_stable)
  have s4: "set (scanFound lib visible t target st)
       = {e. \<exists>s \<in> set (subsetToCheck visible st).
               scanEntry lib t target (scanRadius st * 1000) s = Some e}"
    unfolding sf by (simp add: set_map_filter)
  have s3: "\<forall>x \<in> set (scanFound lib visible t target st). distanceKm x < scanRadius st"
  proof
    fix x assume "x \<in> set (scanFound lib visible t target st)"
    then obtain s where "scanEntry lib t target (scanRadius st * 1000) s = Some x"
      unfolding s4 by blast
    from scanEntry_Some [OF this] show "distanceKm x < scanRadius st" by simp
  qed
  have s5: "\<forall>s \<in> set (subsetToCheck visible st).
         getSatrec lib s = None \<or> (\<exists>r. getSatrec lib s = Some r \<and> cartesianAt lib r t = None)
         \<longrightarrow> scanEntry lib t target (scanRadius st * 1000) s = None"
    using scanEntry_failed by blast
  have s6: "\<forall>clock tgt. viewer st = Some clock \<and> groundTarget st = Some tgt
         \<and> nowMs - lastScannerCheck st > 2000 \<longrightarrow>
         intercepts (onTick lib visible nowMs st)
           = map toIntercept (scanFound lib visible (currentTime clock) tgt st)"
    by (simp add: onTick_def Let_def)
  show ?thesis using s1 s2 s3 s4 s5 s6 by blast
qed

theorem scan_sorted_within_radius_witness:
  "scanFound demoLib demoCatalog 1707226017160 demoTarget scanState
     = [\<lparr>found_name = ''CLOSE'', found_id = 15, distanceKm = 50\<rparr>,
        \<lparr>found_name = ''NEAR'', found_id = 3, distanceKm = 100\<rparr>,
        \<lparr>found_name = ''TWIN'', found_id = 12, distanceKm = 100\<rparr>]
   \<and> sorted (map distanceKm (scanFound demoLib demoCatalog 1707226017160 demoTarget scanState))
   \<and> \<lparr>found_name = ''NEAR'', found_id = 3, distanceKm = 100\<rparr>
        \<in> set (scanFound demoLib demoCatalog 1707226017160 demoTarget scanState)
   \<and> distanceKm \<lparr>found_name = ''NEAR'', found_id = 3, distanceKm = 100\<rparr> < scanRadius scanState
   \<and> satLost \<in> set (subsetToCheck demoCatalog scanState)
   \<and> cartesianAt demoLib \<lparr>satnum = ''00003'', jdsatepoch = 2460346.0603838\<rparr> 1707226017160 = None
   \<and> scanEntry demoLib 1707226017160 demoTarget (scanRadius scanState * 1000) satLost = None
   \<and> intercepts (onTick demoLib demoCatalog 5000 scanState)
       = [\<lparr>int_name = ''CLOSE'', int_id = 15, int_distance = 50\<rparr>,
          \<lparr>int_name = ''NEAR'', int_id = 3, int_distance = 100\<rparr>,
          \<lparr>int_name = ''TWIN'', int_id = 12, int_distance = 100\<rparr>]"
proof -
  note T = scan_sorted_within_radius [of demoLib demoCatalog 1707226017160 demoTarget scanState 5000]
  have m: "\<lparr>found_name = ''NEAR'', found_id = 3, distanceKm = 100\<rparr>
        \<in> set (scanFound demoLib demoCatalog 1707226017160 demoTarget scanState)"
    by (simp add: demo_scanFound)
  have lost: "satLost \<in> set (subsetToCheck demoCatalog scanState)"
    by (simp add: subsetToCheck_def demoCatalog_def)
  have idl: "sat_id satLost \<noteq> 0" by (simp add: satLost_def)
  have rl: "getSatrec demoLib satLost = Some \<lparr>satnum = ''00003'', jdsatepoch = 2460346.0603838\<rparr>"
    using demo_getSatrec_any [OF idl] by (simp add: satLost_def)
  have cl: "cartesianAt demoLib \<lparr>satnum = ''00003'', jdsatepoch = 2460346.0603838\<rparr> 1707226017160 = None"
    by (simp add: demo_cartesianAt_none demoPos_def)
  have h: "viewer scanState = Some (demoViewer 1707226017160) \<and> groundTarget scanState = Some demoTarget
         \<and> 5000 - lastScannerCheck scanState > 2000"
    by (simp add: scanState_def demoState_def initialState_def)
  have srt: "sorted (map distanceKm (scanFound demoLib demoCatalog 1707226017160 demoTarget scanState))"
    using T by blast
  have lt: "distanceKm \<lparr>found_name = ''NEAR'', found_id = 3, distanceKm = 100\<rparr> < scanRadius scanState"
    using T m by blast
  have ex: "scanEntry demoLib 1707226017160 demoTarget (scanRadius scanState * 1000) satLost = None"
    using T lost rl cl by blast
  have "intercepts (onTick demoLib demoCatalog 5000 scanState)
      = map toIntercept (scanFound demoLib demoCatalog (currentTime (demoViewer 1707226017160))
          demoTarget scanState)"
    using T h by blast
  then have disp: "intercepts (onTick demoLib demoCatalog 5000 scanState)
       = [\<lparr>int_name = ''CLOSE'', int_id = 15, int_distance = 50\<rparr>,
          \<lparr>int_name = ''NEAR'', int_id = 3, int_distance = 100\<rparr>,
          \<lparr>int_name = ''TWIN'', int_id = 12, int_distance = 100\<rparr>]"
    by (simp add: demoViewer_def demo_scanFound toIntercept_def toFixed0_def)
  show ?thesis
    using demo_scanFound srt m lt lost cl ex disp by blast
qed

section \<open>Selection outside the filtered view\<close>

text \<open>
  A selection made outside the visible list does not last: the auto-deselect effect, run
  on the state that \<open>selectSatelliteById\<close> leaves, clears it again.
\<close>

lemma select_outside_filter_cleared:
  assumes f: "find (\<lambda>x. sat_id x = satId) (satellites st) = Some s"
    and nv: "sat_id s \<notin> set (map sat_id visible)"
  shows "selectedSat (autoDeselect visible (selectSatelliteById lib wallNow satId st)) = None
    \<and> selectedSatPath (autoDeselect visible (selectSatelliteById lib wallNow satId st)) = None
    \<and> selectedSatData (autoDeselect visible (selectSatelliteById lib wallNow satId st)) = None"
proof -
  let ?st' = "selectSatelliteById lib wallNow satId st"
  have sel: "selectedSat ?st' = Some s"
    using f by (simp add: selectSatelliteById_def Let_def split: option.splits)
  have "\<not> list_ex (\<lambda>x. sat_id x = sat_id s) visible"
    using nv by (simp only: list_ex_sat_id not_False_eq_True)
  then have "autoDeselect visible ?st' = clearSelection ?st'"
    using sel by (simp add: autoDeselect_def)
  then show ?thesis
    by (simp add: clearSelection_def Let_def split: option.splits)
qed

section \<open>The entry with id 0\<close>

text \<open>
  Whatever the library does, the first entry of a catalog has no record: it is never out
  of range, never sampled, never scanned, and its freshness is never published.
\<close>

lemma id_zero_no_record:
  assumes "sat_id s = 0"
  shows "getSatrec lib s = None"
    and "\<not> isOutOfRange lib t s"
    and "calculatePreciseMovement lib s st = st"
    and "updateInfoPanel lib s st = st"
    and "scanEntry lib t target rng s = None"
    and "getDynamicFuturePath lib s = None"
  using assms
  by (simp_all add: getSatrec_def isOutOfRange_def getTleEpochDate_def
      calculatePreciseMovement_def updateInfoPanel_def scanEntry_def getDynamicFuturePath_def
      split: option.splits)

end
